theory Spec2Isabelle
  imports Main "HOL-Library.AList"
begin

section \<open>Python values used by \<^verbatim>\<open>torch/distributed/state_dict.py\<close>\<close>

text \<open>
  Every \<^verbatim>\<open>raise RuntimeError(...)\<close> of the file is one constructor of
  \<open>runtime_error\<close>; the other constructors of \<open>error\<close> are the exceptions
  that Python itself raises (a failed \<^verbatim>\<open>assert\<close>, a missing attribute, an index
  out of range, a missing dictionary key, a call that does not fit a signature).
\<close>

datatype runtime_error =
    TPWithoutDTensor
  | UnsupportedStateDictType
  | BothModelOnlyAndOptimOnly
  | ModelOnlyWithOptims
  | OptimOnlyWithoutOptims
  | NoFSDPRoot
  | EmptyModelStateDict
  | EmptyOptimStateDict
  | FlatParamInKey string
  | UnexpectedKey string string
  | GradsNotNone

datatype error =
    RuntimeError runtime_error
  | AssertionError
  | AttributeError
  | IndexError
  | KeyError
  | TypeError

text \<open>Tensor values are opaque; \<open>ZerosLike p\<close> is \<^verbatim>\<open>torch.zeros_like(p)\<close>.\<close>

datatype tensor = Data nat | ZerosLike nat

text \<open>
  A parameter object is identified by a number (its identity, which is what
  \<^verbatim>\<open>torch.Tensor\<close> hashes on); its attributes live in a store.
\<close>

record param_obj =
  requires_grad :: bool
  is_dtensor :: bool
  grad :: "tensor option"

type_synonym heap = "nat \<Rightarrow> param_obj"

subsection \<open>Strings\<close>

definition FLAT_PARAM :: string where
  "FLAT_PARAM = ''_flat_param''"

definition FSDP_WRAPPED_MODULE :: string where
  "FSDP_WRAPPED_MODULE = ''_fsdp_wrapped_module''"

text \<open>
  \<^verbatim>\<open>name.split(".")\<close>: never empty, \<^verbatim>\<open>"".split(".") == [""]\<close>. A character
  other than the dot goes in front of the first word of the rest (the rest has a first
  word: the case of an empty result does not occur).
\<close>

fun split_dot :: "string \<Rightarrow> string list" where
  "split_dot [] = [[]]"
| "split_dot (c # cs) =
     (if c = CHR ''.'' then [] # split_dot cs
      else (case split_dot cs of [] \<Rightarrow> [[c]] | w # ws \<Rightarrow> (c # w) # ws))"

text \<open>\<^verbatim>\<open>".".join(names)\<close>.\<close>

fun join_dot :: "string list \<Rightarrow> string" where
  "join_dot [] = []"
| "join_dot [w] = w"
| "join_dot (w # v # ws) = w @ CHR ''.'' # join_dot (v # ws)"

text \<open>\<^verbatim>\<open>sub in s\<close> on strings.\<close>

fun str_contains :: "string \<Rightarrow> string \<Rightarrow> bool" where
  "str_contains sub [] = (sub = [])"
| "str_contains sub (c # cs) = (take (length sub) (c # cs) = sub \<or> str_contains sub cs)"

subsection \<open>Dictionaries\<close>

text \<open>
  A Python \<^verbatim>\<open>dict\<close> is an association list in insertion order:
  \<^verbatim>\<open>d[k] = v\<close> is \<open>AList.update k v d\<close> (in place when the key exists, appended
  otherwise), \<^verbatim>\<open>d[k]\<close> and \<^verbatim>\<open>d.pop(k)\<close> raise \<^verbatim>\<open>KeyError\<close> on a missing key.
\<close>

definition dict_get :: "('k \<times> 'v) list \<Rightarrow> 'k \<Rightarrow> error + 'v" where
  "dict_get d k = (case map_of d k of None \<Rightarrow> Inl KeyError | Some v \<Rightarrow> Inr v)"

definition dict_pop :: "('k \<times> 'v) list \<Rightarrow> 'k \<Rightarrow> error + ('v \<times> ('k \<times> 'v) list)" where
  "dict_pop d k = (case map_of d k of None \<Rightarrow> Inl KeyError | Some v \<Rightarrow> Inr (v, AList.delete k d))"

section \<open>The module tree\<close>

text \<open>
  Modelled from the spec: the module classes (\<^verbatim>\<open>nn.Module\<close>,
  \<^verbatim>\<open>DistributedDataParallel\<close>, \<^verbatim>\<open>FullyShardedDataParallel\<close>) are not part of
  the file. A plain node owns named attributes (child modules, parameters and buffers); a
  replica wrapper owns its child under the attribute \<^verbatim>\<open>module\<close>; a shard wrapper owns
  its wrapped child under \<^verbatim>\<open>_fsdp_wrapped_module\<close>, the names \<^verbatim>\<open>_fqns\<close> recorded
  on its flat parameter (\<open>None\<close> when it has no flat parameter) and the truth value of
  \<^verbatim>\<open>_is_root\<close>. Attribute lookup on a shard wrapper falls through to the wrapped child.
\<close>

datatype obj =
    Tensor nat
  | Module "(string \<times> obj) list"
  | DDP obj
  | FSDP obj "string list option" bool

fun getattr :: "obj \<Rightarrow> string \<Rightarrow> error + obj" where
  "getattr (Tensor p) n = Inl AttributeError"
| "getattr (Module attrs) n =
     (case map_of attrs n of None \<Rightarrow> Inl AttributeError | Some x \<Rightarrow> Inr x)"
| "getattr (DDP m) n = (if n = ''module'' then Inr m else Inl AttributeError)"
| "getattr (FSDP m fp r) n = (if n = FSDP_WRAPPED_MODULE then Inr m else getattr m n)"

section \<open>\<^verbatim>\<open>_get_fqns\<close>\<close>

text \<open>
  The loop of \<^verbatim>\<open>_get_fqns\<close> over \<^verbatim>\<open>enumerate(obj_names)\<close>: the names still to
  visit, \<^verbatim>\<open>curr_obj\<close> and \<^verbatim>\<open>fqn_obj_names\<close>. \<^verbatim>\<open>obj_names[i + 1]\<close> is the head
  of the names after the current one, and raises \<^verbatim>\<open>IndexError\<close> when there is none.
  The returned Python set is a list without duplicates, in the order of construction.
\<close>

fun get_fqns_loop :: "bool \<Rightarrow> string list \<Rightarrow> obj \<Rightarrow> string list \<Rightarrow> error + string list" where
  "get_fqns_loop skip_ddp_prefix [] curr_obj fqn_obj_names = Inr [join_dot fqn_obj_names]"
| "get_fqns_loop skip_ddp_prefix (curr_obj_name # rest) (DDP m) fqn_obj_names =
     (if curr_obj_name \<noteq> ''module'' then Inl AssertionError
      else get_fqns_loop skip_ddp_prefix rest m
             (if \<not> skip_ddp_prefix then fqn_obj_names @ [curr_obj_name] else fqn_obj_names))"
| "get_fqns_loop skip_ddp_prefix (curr_obj_name # rest) (FSDP m fp r) fqn_obj_names =
     (case rest of
        [] \<Rightarrow> Inl IndexError
      | nxt # _ \<Rightarrow>
          if nxt = FLAT_PARAM then
            (case fp of
               None \<Rightarrow> Inl AttributeError
             | Some fqns \<Rightarrow>
                 let prefix = join_dot fqn_obj_names;
                     prefix = (if prefix \<noteq> [] then prefix @ ''.'' else prefix)
                 in Inr (remdups (map (\<lambda>fqn. prefix @ fqn) fqns)))
          else if curr_obj_name \<noteq> FSDP_WRAPPED_MODULE then
            (case getattr m curr_obj_name of
               Inl e \<Rightarrow> Inl e
             | Inr c \<Rightarrow> get_fqns_loop skip_ddp_prefix rest c (fqn_obj_names @ [curr_obj_name]))
          else get_fqns_loop skip_ddp_prefix rest m fqn_obj_names)"
| "get_fqns_loop skip_ddp_prefix (curr_obj_name # rest) curr_obj fqn_obj_names =
     (case getattr curr_obj curr_obj_name of
        Inl e \<Rightarrow> Inl e
      | Inr c \<Rightarrow> get_fqns_loop skip_ddp_prefix rest c (fqn_obj_names @ [curr_obj_name]))"

definition get_fqns :: "obj \<Rightarrow> string \<Rightarrow> bool \<Rightarrow> error + string list" where
  "get_fqns model name skip_ddp_prefix =
     (if CHR ''.'' \<notin> set name then Inr [name]
      else get_fqns_loop skip_ddp_prefix (split_dot name) model [])"

section \<open>Options, the derived policy and \<^verbatim>\<open>_verify_options\<close>\<close>

datatype StateDictType = FULL_STATE_DICT | LOCAL_STATE_DICT | SHARDED_STATE_DICT

record DistributedStateDictOptions =
  use_dtensor :: bool
  fsdp_state_dict_type :: StateDictType
  save_to_cpu :: bool
  save_frozen_params :: bool

text \<open>\<^verbatim>\<open>DistributedStateDictOptions()\<close>: the defaults of the dataclass.\<close>

definition default_options :: DistributedStateDictOptions where
  "default_options =
     \<lparr>use_dtensor = True, fsdp_state_dict_type = SHARDED_STATE_DICT,
      save_to_cpu = True, save_frozen_params = True\<rparr>"

text \<open>
  The configuration objects handed to \<^verbatim>\<open>FSDP.state_dict_type\<close>, with the keyword
  arguments the file passes: \<^verbatim>\<open>offload_to_cpu\<close> and \<^verbatim>\<open>rank0_only\<close> for the
  full format, \<^verbatim>\<open>use_dtensor\<close> for the sharded one.
\<close>

datatype state_dict_config =
    FullStateDictConfig bool bool
  | ShardedStateDictConfig bool

datatype optim_state_dict_config =
    FullOptimStateDictConfig bool bool
  | ShardedOptimStateDictConfig bool

datatype fsdp_context_t =
    nullcontext
  | state_dict_type StateDictType state_dict_config optim_state_dict_config

text \<open>
  \<^verbatim>\<open>fqn_param_mapping\<close> is one dictionary with two kinds of keys: a parameter object
  maps to its set of FQNs, an FQN maps to its parameter object.
\<close>

datatype mapping_key = ParamKey nat | FqnKey string

datatype mapping_val = FqnsVal "string list" | ParamVal nat

record StateDictInfo = DistributedStateDictOptions +
  fqn_param_mapping :: "(mapping_key \<times> mapping_val) list"
  handle_model :: bool
  handle_optim :: bool
  fsdp_context :: fsdp_context_t
  fsdp_modules :: "obj list"

text \<open>
  Modelled from the spec: what the model object answers to its collaborators' calls.
  \<open>root\<close> is the module tree; \<open>named_parameters\<close> is the ordered sequence of
  (name, parameter) that \<^verbatim>\<open>model.named_parameters()\<close> yields; \<open>native_state_dict\<close>
  is what the class's own \<^verbatim>\<open>state_dict()\<close> returns inside the FSDP context;
  \<open>patched\<close> says that the object's \<^verbatim>\<open>state_dict\<close> and
  \<^verbatim>\<open>load_state_dict\<close> attributes are members of \<^verbatim>\<open>_patched_state_dict\<close>.
\<close>

record model =
  root :: obj
  named_parameters :: "(string \<times> nat) list"
  native_state_dict :: "(string \<times> tensor) list"
  patched :: bool

text \<open>
  \<^verbatim>\<open>_state_dict_fn(obj, api)\<close> returns the attribute of the object, or, when that
  attribute is a member of \<^verbatim>\<open>_patched_state_dict\<close>,
  \<^verbatim>\<open>functools.partial(getattr(obj.__class__, api), self=obj)\<close>. Called with no
  argument (\<^verbatim>\<open>state_dict\<close>) both are the class's method on the object. Called with
  one positional argument (\<^verbatim>\<open>load_state_dict\<close>) the partial passes it in the
  position of \<^verbatim>\<open>self\<close>, which the keyword already binds: \<^verbatim>\<open>TypeError\<close>.
\<close>

definition state_dict_fn_load :: "bool \<Rightarrow> ('a \<Rightarrow> error + 'b) \<Rightarrow> 'a \<Rightarrow> error + 'b" where
  "state_dict_fn_load is_patched native arg = (if is_patched then Inl TypeError else native arg)"

text \<open>
  Modelled from the spec: \<^verbatim>\<open>FSDP.fsdp_modules(model)\<close> enumerates the shard
  wrapper instances of the tree, the root included, in traversal order.
\<close>

fun fsdp_modules_of :: "obj \<Rightarrow> obj list" where
  "fsdp_modules_of (Tensor p) = []"
| "fsdp_modules_of (Module attrs) = concat (map (\<lambda>x. fsdp_modules_of (snd x)) attrs)"
| "fsdp_modules_of (DDP m) = fsdp_modules_of m"
| "fsdp_modules_of (FSDP m fp r) = FSDP m fp r # fsdp_modules_of m"

text \<open>
  The loop of \<^verbatim>\<open>_verify_options\<close> over \<^verbatim>\<open>model.named_parameters()\<close> that fills
  \<^verbatim>\<open>fqn_param_mapping\<close>.
\<close>

fun build_fqn_param_mapping ::
  "heap \<Rightarrow> obj \<Rightarrow> DistributedStateDictOptions \<Rightarrow> (string \<times> nat) list \<Rightarrow>
   (mapping_key \<times> mapping_val) list \<Rightarrow> error + (mapping_key \<times> mapping_val) list" where
  "build_fqn_param_mapping h m options [] mp = Inr mp"
| "build_fqn_param_mapping h m options ((name, param) # rest) mp =
     (case get_fqns m name True of
        Inl e \<Rightarrow> Inl e
      | Inr fqns \<Rightarrow>
          let mp = AList.update (ParamKey param) (FqnsVal fqns) mp;
              mp = fold (\<lambda>fqn. AList.update (FqnKey fqn) (ParamVal param)) fqns mp
          in if is_dtensor (h param) \<and> \<not> use_dtensor options
             then Inl (RuntimeError TPWithoutDTensor)
             else build_fqn_param_mapping h m options rest mp)"

text \<open>The selection of the FSDP context manager in \<^verbatim>\<open>_verify_options\<close>.\<close>

definition select_fsdp_context ::
  "obj list \<Rightarrow> DistributedStateDictOptions \<Rightarrow> error + fsdp_context_t" where
  "select_fsdp_context fsdp_mods options =
     (if fsdp_mods \<noteq> [] then
        (if fsdp_state_dict_type options = FULL_STATE_DICT then
           Inr (state_dict_type FULL_STATE_DICT
                  (FullStateDictConfig True True) (FullOptimStateDictConfig True True))
         else if fsdp_state_dict_type options = SHARDED_STATE_DICT then
           Inr (state_dict_type SHARDED_STATE_DICT
                  (ShardedStateDictConfig (use_dtensor options))
                  (ShardedOptimStateDictConfig (use_dtensor options)))
         else Inl (RuntimeError UnsupportedStateDictType))
      else Inr nullcontext)"

text \<open>
  \<^verbatim>\<open>_verify_options\<close>. \<open>optims\<close> is the tuple of optimizers; \<open>handle_optim\<close>
  holds the truth value of \<^verbatim>\<open>optim_only or (not model_only and optims)\<close>.
\<close>

definition verify_options ::
  "heap \<Rightarrow> model \<Rightarrow> 'o list \<Rightarrow> bool \<Rightarrow> bool \<Rightarrow> DistributedStateDictOptions option \<Rightarrow>
   error + StateDictInfo" where
  "verify_options h mdl optims model_only optim_only options_arg =
     (let options = (case options_arg of None \<Rightarrow> default_options | Some x \<Rightarrow> x) in
      case build_fqn_param_mapping h (root mdl) options (named_parameters mdl) [] of
        Inl e \<Rightarrow> Inl e
      | Inr mp \<Rightarrow>
          let fsdp_mods = fsdp_modules_of (root mdl) in
          (case select_fsdp_context fsdp_mods options of
             Inl e \<Rightarrow> Inl e
           | Inr ctx \<Rightarrow>
               if model_only \<and> optim_only then Inl (RuntimeError BothModelOnlyAndOptimOnly)
               else if model_only \<and> optims \<noteq> [] then Inl (RuntimeError ModelOnlyWithOptims)
               else if optim_only \<and> optims = [] then Inl (RuntimeError OptimOnlyWithoutOptims)
               else Inr \<lparr>use_dtensor = use_dtensor options,
                         fsdp_state_dict_type = fsdp_state_dict_type options,
                         save_to_cpu = save_to_cpu options,
                         save_frozen_params = save_frozen_params options,
                         fqn_param_mapping = mp,
                         handle_model = (model_only \<or> \<not> optim_only),
                         handle_optim = (optim_only \<or> (\<not> model_only \<and> optims \<noteq> [])),
                         fsdp_context = ctx,
                         fsdp_modules = fsdp_mods\<rparr>))"

section \<open>State dicts and \<^verbatim>\<open>_verify_state_dict\<close>\<close>

text \<open>
  A key of an optimizer state dict is a positional parameter id (native form) or an FQN
  (canonical form). The payload of a state entry and the hyperparameters of a group are
  opaque. The dictionary \<^verbatim>\<open>{"state": ..., "param_groups": ...}\<close> is a record; where
  a function may also receive the empty dictionary \<^verbatim>\<open>{}\<close> (the default argument of
  \<^verbatim>\<open>distributed_load_state_dict\<close>), its argument is an option and \<open>None\<close> is
  \<^verbatim>\<open>{}\<close>.
\<close>

datatype okey = IdKey nat | NameKey string

record param_group =
  params :: "okey list"
  hyper :: nat

record optim_state_dict =
  state :: "(okey \<times> nat) list"
  param_groups :: "param_group list"

text \<open>
  The loop of \<^verbatim>\<open>_verify_state_dict\<close> that looks for an FSDP root, leaving at the
  first one. Reading \<^verbatim>\<open>_is_root\<close> of anything but a shard wrapper fails.
\<close>

fun has_fsdp_root_loop :: "obj list \<Rightarrow> error + bool" where
  "has_fsdp_root_loop [] = Inr False"
| "has_fsdp_root_loop (FSDP m fp r # rest) = (if r then Inr True else has_fsdp_root_loop rest)"
| "has_fsdp_root_loop (x # rest) = Inl AttributeError"

text \<open>The last loop of \<^verbatim>\<open>_verify_state_dict\<close>, over the items of the model state dict.\<close>

fun flat_param_key_loop :: "(string \<times> tensor) list \<Rightarrow> error + unit" where
  "flat_param_key_loop [] = Inr ()"
| "flat_param_key_loop ((key, param) # rest) =
     (if str_contains FLAT_PARAM key then Inl (RuntimeError (FlatParamInKey key))
      else flat_param_key_loop rest)"

definition verify_state_dict ::
  "(string \<times> tensor) list \<Rightarrow> optim_state_dict option \<Rightarrow> StateDictInfo \<Rightarrow> error + unit" where
  "verify_state_dict model_state_dict optim_state_dict info =
     (case has_fsdp_root_loop (fsdp_modules info) of
        Inl e \<Rightarrow> Inl e
      | Inr has_fsdp_root \<Rightarrow>
          if fsdp_modules info \<noteq> [] \<and> \<not> has_fsdp_root then Inl (RuntimeError NoFSDPRoot)
          else if handle_model info \<and> model_state_dict = []
            then Inl (RuntimeError EmptyModelStateDict)
          else if handle_optim info \<and>
                  (case optim_state_dict of None \<Rightarrow> True | Some osd \<Rightarrow> state osd = [])
            then Inl (RuntimeError EmptyOptimStateDict)
          else flat_param_key_loop model_state_dict)"

section \<open>\<^verbatim>\<open>_get_model_state_dict\<close>\<close>

text \<open>
  The loop of the nested function \<^verbatim>\<open>verify(key, fqn)\<close>: the part of
  \<^verbatim>\<open>fqn_split\<close> from \<^verbatim>\<open>fqn_idx\<close> on (never empty) and the part of
  \<^verbatim>\<open>key_split\<close> still to visit; \<^verbatim>\<open>key_idx == len(key_split) - 1\<close> says that
  no key name is left.
\<close>

fun verify_loop :: "string list \<Rightarrow> string list \<Rightarrow> bool" where
  "verify_loop fqn_split [] = True"
| "verify_loop fqn_split (key_name # key_rest) =
     (if key_name = hd fqn_split then
        (if tl fqn_split = [] then key_rest = [] else verify_loop (tl fqn_split) key_rest)
      else if key_name = ''module'' then verify_loop fqn_split key_rest
      else False)"

definition verify :: "string \<Rightarrow> string \<Rightarrow> bool" where
  "verify key fqn =
     (if length fqn \<ge> length key then False else verify_loop (split_dot fqn) (split_dot key))"

text \<open>The loop over \<^verbatim>\<open>list(state_dict.keys())\<close> that rewrites native keys to FQNs.\<close>

fun canonical_keys_loop ::
  "obj \<Rightarrow> string list \<Rightarrow> (string \<times> tensor) list \<Rightarrow> error + (string \<times> tensor) list" where
  "canonical_keys_loop m [] state_dict = Inr state_dict"
| "canonical_keys_loop m (key # keys) state_dict =
     (case get_fqns m key True of
        Inl e \<Rightarrow> Inl e
      | Inr fqns \<Rightarrow>
          if length fqns \<noteq> 1 then Inl AssertionError
          else let fqn = hd fqns in
            if fqn \<noteq> key then
              (if \<not> verify key fqn then Inl (RuntimeError (UnexpectedKey key fqn))
               else (case dict_pop state_dict key of
                       Inl e \<Rightarrow> Inl e
                     | Inr (v, sd) \<Rightarrow> canonical_keys_loop m keys (AList.update fqn v sd)))
            else canonical_keys_loop m keys state_dict)"

text \<open>\<^verbatim>\<open>for fqn in fqns: state_dict.pop(fqn)\<close>.\<close>

fun pop_all :: "string list \<Rightarrow> (string \<times> tensor) list \<Rightarrow> error + (string \<times> tensor) list" where
  "pop_all [] state_dict = Inr state_dict"
| "pop_all (fqn # fqns) state_dict =
     (case dict_pop state_dict fqn of
        Inl e \<Rightarrow> Inl e
      | Inr (v, sd) \<Rightarrow> pop_all fqns sd)"

text \<open>The loop that drops the entries of frozen parameters.\<close>

fun drop_frozen_loop ::
  "heap \<Rightarrow> obj \<Rightarrow> (string \<times> nat) list \<Rightarrow> (string \<times> tensor) list \<Rightarrow>
   error + (string \<times> tensor) list" where
  "drop_frozen_loop h m [] state_dict = Inr state_dict"
| "drop_frozen_loop h m ((key, param) # rest) state_dict =
     (if requires_grad (h param) then drop_frozen_loop h m rest state_dict
      else (case get_fqns m key True of
              Inl e \<Rightarrow> Inl e
            | Inr fqns \<Rightarrow>
                (case pop_all fqns state_dict of
                   Inl e \<Rightarrow> Inl e
                 | Inr sd \<Rightarrow> drop_frozen_loop h m rest sd)))"

definition get_model_state_dict ::
  "heap \<Rightarrow> model \<Rightarrow> StateDictInfo \<Rightarrow> error + (string \<times> tensor) list" where
  "get_model_state_dict h mdl info =
     (let state_dict = native_state_dict mdl in
      case canonical_keys_loop (root mdl) (map fst state_dict) state_dict of
        Inl e \<Rightarrow> Inl e
      | Inr sd \<Rightarrow>
          if \<not> save_frozen_params info then drop_frozen_loop h (root mdl) (named_parameters mdl) sd
          else Inr sd)"

section \<open>Optimizers\<close>

text \<open>
  Modelled from the spec: an optimizer object has \<^verbatim>\<open>state\<close> (keyed by parameter
  object) and \<^verbatim>\<open>param_groups\<close> (each with its ordered \<^verbatim>\<open>params\<close> list and
  opaque hyperparameters). \<open>steps\<close> counts the calls of \<^verbatim>\<open>step\<close> made on it;
  \<open>opt_patched\<close> says that its \<^verbatim>\<open>state_dict\<close> and \<^verbatim>\<open>load_state_dict\<close>
  attributes are members of \<^verbatim>\<open>_patched_state_dict\<close>.
\<close>

record opt_param_group =
  group_params :: "nat list"
  group_hyper :: nat

record optimizer =
  opt_state :: "(nat \<times> nat) list"
  opt_param_groups :: "opt_param_group list"
  steps :: nat
  opt_patched :: bool

text \<open>
  Modelled from the spec: the primitives of the collaborators, which the file calls and
  does not define. \<open>optim_step\<close> is what \<^verbatim>\<open>optim.step(closure=None)\<close> does to the
  optimizer and to the parameters; \<open>optim_native_state_dict\<close> and
  \<open>optim_native_load_state_dict\<close> are the optimizer's own \<^verbatim>\<open>state_dict\<close> and
  \<^verbatim>\<open>load_state_dict\<close>; \<open>fsdp_optim_state_dict\<close> and
  \<open>fsdp_optim_state_dict_to_load\<close> are \<^verbatim>\<open>FSDP.optim_state_dict\<close> and
  \<^verbatim>\<open>FSDP.optim_state_dict_to_load\<close>; \<open>model_native_load_state_dict\<close> is the
  model's own \<^verbatim>\<open>load_state_dict\<close>.
\<close>

record collaborators =
  optim_step :: "optimizer \<Rightarrow> heap \<Rightarrow> optimizer \<times> heap"
  optim_native_state_dict :: "optimizer \<Rightarrow> optim_state_dict"
  optim_native_load_state_dict :: "optimizer \<Rightarrow> optim_state_dict \<Rightarrow> error + optimizer"
  fsdp_optim_state_dict :: "model \<Rightarrow> optimizer \<Rightarrow> optim_state_dict \<Rightarrow> error + optim_state_dict"
  fsdp_optim_state_dict_to_load ::
    "model \<Rightarrow> optimizer \<Rightarrow> optim_state_dict \<Rightarrow> error + optim_state_dict"
  model_native_load_state_dict :: "model \<Rightarrow> (string \<times> tensor) list \<Rightarrow> error + model"

text \<open>\<^verbatim>\<open>chain.from_iterable(g["params"] for g in optim.param_groups)\<close>.\<close>

definition all_params :: "optimizer \<Rightarrow> nat list" where
  "all_params optim = concat (map group_params (opt_param_groups optim))"

text \<open>
  \<^verbatim>\<open>optim.step(closure=None)\<close>, counted; and, modelled from the spec,
  \<^verbatim>\<open>optim.zero_grad(set_to_none=True)\<close>, which clears the gradient of every
  parameter of every group.
\<close>

definition call_step :: "collaborators \<Rightarrow> optimizer \<Rightarrow> heap \<Rightarrow> optimizer \<times> heap" where
  "call_step c optim h =
     (case optim_step c optim h of (optim', h') \<Rightarrow> (optim'\<lparr>steps := Suc (steps optim)\<rparr>, h'))"

definition zero_grad :: "optimizer \<Rightarrow> heap \<Rightarrow> heap" where
  "zero_grad optim h =
     (\<lambda>p. if p \<in> set (all_params optim) then (h p)\<lparr>grad := None\<rparr> else h p)"

section \<open>\<^verbatim>\<open>_init_optim_state\<close>\<close>

text \<open>
  The two nested loops of \<^verbatim>\<open>_init_optim_state\<close>, over the parameters of all groups
  in order. The store is returned also when the loop raises: the gradients written
  before the raise stay written.
\<close>

fun init_grads_loop :: "nat list \<Rightarrow> heap \<Rightarrow> error option \<times> heap" where
  "init_grads_loop [] h = (None, h)"
| "init_grads_loop (param # rest) h =
     (if grad (h param) \<noteq> None then (Some (RuntimeError GradsNotNone), h)
      else init_grads_loop rest
             (if requires_grad (h param)
              then h(param := (h param)\<lparr>grad := Some (ZerosLike param)\<rparr>) else h))"

definition init_optim_state ::
  "collaborators \<Rightarrow> optimizer \<Rightarrow> heap \<Rightarrow> error option \<times> optimizer \<times> heap" where
  "init_optim_state c optim h =
     (if opt_state optim \<noteq> [] then (None, optim, h)
      else (case init_grads_loop (all_params optim) h of
              (Some e, h') \<Rightarrow> (Some e, optim, h')
            | (None, h') \<Rightarrow>
                (case call_step c optim h' of
                   (optim', h'') \<Rightarrow> (None, optim', zero_grad optim' h''))))"

section \<open>\<^verbatim>\<open>_get_optim_state_dict\<close>\<close>

text \<open>\<^verbatim>\<open>dict(zip(params, range(len(params))))\<close>: a later position wins.\<close>

definition param_pid_mapping_of :: "nat list \<Rightarrow> (nat \<times> nat) list" where
  "param_pid_mapping_of ps =
     fold (\<lambda>(p, i). AList.update p i) (zip ps [0..<length ps]) []"

text \<open>
  The loop over \<^verbatim>\<open>model.named_parameters()\<close> that fills \<^verbatim>\<open>fqn_pid_mapping\<close>,
  a dictionary from FQN to position id and from position id to FQN.
\<close>

fun fqn_pid_mapping_loop ::
  "obj \<Rightarrow> (nat \<times> nat) list \<Rightarrow> (string \<times> nat) list \<Rightarrow> (okey \<times> okey) list \<Rightarrow>
   error + (okey \<times> okey) list" where
  "fqn_pid_mapping_loop m param_pid_mapping [] fqn_pid_mapping = Inr fqn_pid_mapping"
| "fqn_pid_mapping_loop m param_pid_mapping ((key, param) # rest) fqn_pid_mapping =
     (case get_fqns m key True of
        Inl e \<Rightarrow> Inl e
      | Inr fqns \<Rightarrow>
          if length fqns \<noteq> 1 then Inl AssertionError
          else let fqn = hd fqns in
            (case map_of param_pid_mapping param of
               None \<Rightarrow> fqn_pid_mapping_loop m param_pid_mapping rest fqn_pid_mapping
             | Some pid \<Rightarrow>
                 fqn_pid_mapping_loop m param_pid_mapping rest
                   (AList.update (IdKey pid) (NameKey fqn)
                      (AList.update (NameKey fqn) (IdKey pid) fqn_pid_mapping))))"

text \<open>The loop over \<^verbatim>\<open>list(osd["state"].keys())\<close>.\<close>

fun state_keys_loop ::
  "(okey \<times> okey) list \<Rightarrow> okey list \<Rightarrow> (okey \<times> nat) list \<Rightarrow> error + (okey \<times> nat) list" where
  "state_keys_loop fqn_pid_mapping [] st = Inr st"
| "state_keys_loop fqn_pid_mapping (key # keys) st =
     (case dict_get fqn_pid_mapping key of
        Inl e \<Rightarrow> Inl e
      | Inr fqn \<Rightarrow>
          (case dict_pop st key of
             Inl e \<Rightarrow> Inl e
           | Inr (v, st') \<Rightarrow> state_keys_loop fqn_pid_mapping keys (AList.update fqn v st')))"

text \<open>\<^verbatim>\<open>[fqn_pid_mapping[pid] for pid in group["params"]]\<close>.\<close>

fun lookup_all :: "(okey \<times> okey) list \<Rightarrow> okey list \<Rightarrow> error + okey list" where
  "lookup_all fqn_pid_mapping [] = Inr []"
| "lookup_all fqn_pid_mapping (pid # pids) =
     (case dict_get fqn_pid_mapping pid of
        Inl e \<Rightarrow> Inl e
      | Inr fqn \<Rightarrow>
          (case lookup_all fqn_pid_mapping pids of
             Inl e \<Rightarrow> Inl e
           | Inr fqns \<Rightarrow> Inr (fqn # fqns)))"

text \<open>The loop over \<^verbatim>\<open>osd[PG]\<close>.\<close>

fun groups_loop :: "(okey \<times> okey) list \<Rightarrow> param_group list \<Rightarrow> error + param_group list" where
  "groups_loop fqn_pid_mapping [] = Inr []"
| "groups_loop fqn_pid_mapping (g # gs) =
     (case lookup_all fqn_pid_mapping (params g) of
        Inl e \<Rightarrow> Inl e
      | Inr ps \<Rightarrow>
          (case groups_loop fqn_pid_mapping gs of
             Inl e \<Rightarrow> Inl e
           | Inr gs' \<Rightarrow> Inr (g\<lparr>params := ps\<rparr> # gs')))"

text \<open>The \<^verbatim>\<open>else\<close> branch of the loop body: position ids become FQNs.\<close>

definition pids_to_fqns ::
  "model \<Rightarrow> optimizer \<Rightarrow> optim_state_dict \<Rightarrow> error + optim_state_dict" where
  "pids_to_fqns mdl optim osd =
     (let param_pid_mapping = param_pid_mapping_of (all_params optim) in
      case fqn_pid_mapping_loop (root mdl) param_pid_mapping (named_parameters mdl) [] of
        Inl e \<Rightarrow> Inl e
      | Inr fqn_pid_mapping \<Rightarrow>
          (case state_keys_loop fqn_pid_mapping (map fst (state osd)) (state osd) of
             Inl e \<Rightarrow> Inl e
           | Inr st \<Rightarrow>
               (case groups_loop fqn_pid_mapping (param_groups osd) of
                  Inl e \<Rightarrow> Inl e
                | Inr gs \<Rightarrow> Inr \<lparr>state = st, param_groups = gs\<rparr>)))"

text \<open>
  The loop of \<^verbatim>\<open>_get_optim_state_dict\<close> over the optimizers, with the merged state
  dict as accumulator. The optimizers and the store are returned as the loop left them.
\<close>

fun get_optim_state_dict_loop ::
  "collaborators \<Rightarrow> model \<Rightarrow> StateDictInfo \<Rightarrow> optimizer list \<Rightarrow> optim_state_dict \<Rightarrow> heap \<Rightarrow>
   (error + optim_state_dict) \<times> optimizer list \<times> heap" where
  "get_optim_state_dict_loop c mdl info [] optim_state_dict h = (Inr optim_state_dict, [], h)"
| "get_optim_state_dict_loop c mdl info (optim # rest) optim_state_dict h =
     (case init_optim_state c optim h of
        (Some e, optim', h') \<Rightarrow> (Inl e, optim' # rest, h')
      | (None, optim', h') \<Rightarrow>
          (case (let osd = optim_native_state_dict c optim' in
                 if fsdp_modules info \<noteq> [] then fsdp_optim_state_dict c mdl optim' osd
                 else pids_to_fqns mdl optim' osd) of
             Inl e \<Rightarrow> (Inl e, optim' # rest, h')
           | Inr osd \<Rightarrow>
               (case get_optim_state_dict_loop c mdl info rest
                       \<lparr>state = fold (\<lambda>(k, v). AList.update k v) (state osd) (state optim_state_dict),
                        param_groups = param_groups optim_state_dict @ param_groups osd\<rparr> h' of
                  (r, rest', h'') \<Rightarrow> (r, optim' # rest', h''))))"

definition get_optim_state_dict ::
  "collaborators \<Rightarrow> heap \<Rightarrow> model \<Rightarrow> optimizer list \<Rightarrow> StateDictInfo \<Rightarrow>
   (error + optim_state_dict) \<times> optimizer list \<times> heap" where
  "get_optim_state_dict c h mdl optims info =
     get_optim_state_dict_loop c mdl info optims \<lparr>state = [], param_groups = []\<rparr> h"

section \<open>\<^verbatim>\<open>distributed_state_dict\<close>\<close>

definition distributed_state_dict ::
  "collaborators \<Rightarrow> heap \<Rightarrow> model \<Rightarrow> optimizer list \<Rightarrow> bool \<Rightarrow> bool \<Rightarrow>
   DistributedStateDictOptions option \<Rightarrow>
   (error + (string \<times> tensor) list \<times> optim_state_dict) \<times> optimizer list \<times> heap" where
  "distributed_state_dict c h mdl optims model_only optim_only options =
     (case verify_options h mdl optims model_only optim_only options of
        Inl e \<Rightarrow> (Inl e, optims, h)
      | Inr info \<Rightarrow>
          (case get_model_state_dict h mdl info of
             Inl e \<Rightarrow> (Inl e, optims, h)
           | Inr model_state_dict \<Rightarrow>
               (case get_optim_state_dict c h mdl optims info of
                  (Inl e, optims', h') \<Rightarrow> (Inl e, optims', h')
                | (Inr optim_state_dict, optims', h') \<Rightarrow>
                    (case verify_state_dict model_state_dict (Some optim_state_dict) info of
                       Inl e \<Rightarrow> (Inl e, optims', h')
                     | Inr u \<Rightarrow> (Inr (model_state_dict, optim_state_dict), optims', h')))))"

section \<open>\<^verbatim>\<open>_load_model_state_dict\<close>\<close>

text \<open>
  \<^verbatim>\<open>for fqn, fqn_with_ddp_prefix in zip(fqns, fqns_with_ddp_prefix)\<close>, on the caller's
  dictionary, which is returned as the loop left it also when \<^verbatim>\<open>pop\<close> raises.
\<close>

fun ddp_prefix_pairs_loop ::
  "(string \<times> string) list \<Rightarrow> (string \<times> tensor) list \<Rightarrow> error option \<times> (string \<times> tensor) list" where
  "ddp_prefix_pairs_loop [] state_dict = (None, state_dict)"
| "ddp_prefix_pairs_loop ((fqn, fqn_with_ddp_prefix) # rest) state_dict =
     (if fqn \<noteq> fqn_with_ddp_prefix then
        (case dict_pop state_dict fqn of
           Inl e \<Rightarrow> (Some e, state_dict)
         | Inr (v, sd) \<Rightarrow> ddp_prefix_pairs_loop rest (AList.update fqn_with_ddp_prefix v sd))
      else ddp_prefix_pairs_loop rest state_dict)"

text \<open>The loop of \<^verbatim>\<open>_load_model_state_dict\<close> over \<^verbatim>\<open>model.named_parameters()\<close>.\<close>

fun ddp_prefix_loop ::
  "obj \<Rightarrow> (string \<times> nat) list \<Rightarrow> (string \<times> tensor) list \<Rightarrow>
   error option \<times> (string \<times> tensor) list" where
  "ddp_prefix_loop m [] state_dict = (None, state_dict)"
| "ddp_prefix_loop m ((key, param) # rest) state_dict =
     (case get_fqns m key True of
        Inl e \<Rightarrow> (Some e, state_dict)
      | Inr fqns \<Rightarrow>
          (case get_fqns m key False of
             Inl e \<Rightarrow> (Some e, state_dict)
           | Inr fqns_with_ddp_prefix \<Rightarrow>
               (case ddp_prefix_pairs_loop (zip fqns fqns_with_ddp_prefix) state_dict of
                  (Some e, sd) \<Rightarrow> (Some e, sd)
                | (None, sd) \<Rightarrow> ddp_prefix_loop m rest sd)))"

text \<open>
  \<^verbatim>\<open>_load_model_state_dict\<close> returns what the native load returns (here the model
  after the load); the second component is the caller's dictionary after the call.
\<close>

definition load_model_state_dict ::
  "collaborators \<Rightarrow> model \<Rightarrow> (string \<times> tensor) list \<Rightarrow> StateDictInfo \<Rightarrow>
   (error + model) \<times> (string \<times> tensor) list" where
  "load_model_state_dict c mdl state_dict info =
     (case ddp_prefix_loop (root mdl) (named_parameters mdl) state_dict of
        (Some e, sd) \<Rightarrow> (Inl e, sd)
      | (None, sd) \<Rightarrow>
          (state_dict_fn_load (patched mdl) (model_native_load_state_dict c mdl) sd, sd))"

section \<open>\<^verbatim>\<open>_split_optim_state_dict\<close> and \<^verbatim>\<open>_load_optim_state_dict\<close>\<close>

text \<open>
  The identity \<^verbatim>\<open>id(loaded_param_group)\<close> of a group of the merged state dict is its
  position in \<^verbatim>\<open>optim_state_dict[PG]\<close>. \<open>mentioning fqn groups\<close> are the positions
  of the groups whose \<^verbatim>\<open>params\<close> contain \<open>fqn\<close>.
\<close>

definition mentioning :: "string \<Rightarrow> param_group list \<Rightarrow> nat list" where
  "mentioning fqn groups =
     filter (\<lambda>i. NameKey fqn \<in> set (params (groups ! i))) [0..<length groups]"

text \<open>
  \<^verbatim>\<open>for fqn in info.fqn_param_mapping[param]\<close>: the accumulator is
  \<^verbatim>\<open>return_osd["state"]\<close> and \<^verbatim>\<open>param_group_ids\<close>.
\<close>

fun split_fqns_loop ::
  "optim_state_dict \<Rightarrow> string list \<Rightarrow> (okey \<times> nat) list \<times> nat list \<Rightarrow>
   error + (okey \<times> nat) list \<times> nat list" where
  "split_fqns_loop osd [] acc = Inr acc"
| "split_fqns_loop osd (fqn # fqns) (st, param_group_ids) =
     (case dict_get (state osd) (NameKey fqn) of
        Inl e \<Rightarrow> Inl e
      | Inr v \<Rightarrow>
          split_fqns_loop osd fqns
            (AList.update (NameKey fqn) v st,
             fold List.insert (mentioning fqn (param_groups osd)) param_group_ids))"

text \<open>The two nested loops over the parameters of the optimizer's groups.\<close>

fun split_params_loop ::
  "heap \<Rightarrow> StateDictInfo \<Rightarrow> optim_state_dict \<Rightarrow> nat list \<Rightarrow> (okey \<times> nat) list \<times> nat list \<Rightarrow>
   error + (okey \<times> nat) list \<times> nat list" where
  "split_params_loop h info osd [] acc = Inr acc"
| "split_params_loop h info osd (param # rest) acc =
     (if \<not> requires_grad (h param) then split_params_loop h info osd rest acc
      else (case dict_get (fqn_param_mapping info) (ParamKey param) of
              Inl e \<Rightarrow> Inl e
            | Inr (ParamVal q) \<Rightarrow> Inl TypeError
            | Inr (FqnsVal fqns) \<Rightarrow>
                (case split_fqns_loop osd fqns acc of
                   Inl e \<Rightarrow> Inl e
                 | Inr acc' \<Rightarrow> split_params_loop h info osd rest acc')))"

text \<open>
  \<^verbatim>\<open>_split_optim_state_dict\<close>: the groups of the merged state dict whose identity
  was collected, in the order of the merged state dict.
\<close>

definition split_optim_state_dict ::
  "heap \<Rightarrow> model \<Rightarrow> optimizer \<Rightarrow> optim_state_dict \<Rightarrow> StateDictInfo \<Rightarrow> error + optim_state_dict" where
  "split_optim_state_dict h mdl optim optim_state_dict info =
     (case split_params_loop h info optim_state_dict (all_params optim) ([], []) of
        Inl e \<Rightarrow> Inl e
      | Inr (st, param_group_ids) \<Rightarrow>
          Inr \<lparr>state = st,
               param_groups =
                 map (\<lambda>i. param_groups optim_state_dict ! i)
                   (filter (\<lambda>i. i \<in> set param_group_ids)
                      [0..<length (param_groups optim_state_dict)])\<rparr>)"

text \<open>The loop of \<^verbatim>\<open>_load_optim_state_dict\<close> over the optimizers.\<close>

fun load_optim_state_dict ::
  "collaborators \<Rightarrow> model \<Rightarrow> optimizer list \<Rightarrow> optim_state_dict \<Rightarrow> StateDictInfo \<Rightarrow> heap \<Rightarrow>
   error option \<times> optimizer list \<times> heap" where
  "load_optim_state_dict c mdl [] state_dict info h = (None, [], h)"
| "load_optim_state_dict c mdl (optim # rest) state_dict info h =
     (case (case split_optim_state_dict h mdl optim state_dict info of
              Inl e \<Rightarrow> Inl e
            | Inr osd \<Rightarrow>
                if fsdp_modules info \<noteq> [] then fsdp_optim_state_dict_to_load c mdl optim osd
                else Inr osd) of
        Inl e \<Rightarrow> (Some e, optim # rest, h)
      | Inr osd \<Rightarrow>
          (case init_optim_state c optim h of
             (Some e, optim', h') \<Rightarrow> (Some e, optim' # rest, h')
           | (None, optim', h') \<Rightarrow>
               (case state_dict_fn_load (opt_patched optim')
                       (optim_native_load_state_dict c optim') osd of
                  Inl e \<Rightarrow> (Some e, optim' # rest, h')
                | Inr optim'' \<Rightarrow>
                    (case load_optim_state_dict c mdl rest state_dict info h' of
                       (r, rest', h'') \<Rightarrow> (r, optim'' # rest', h'')))))"

section \<open>\<^verbatim>\<open>distributed_load_state_dict\<close>\<close>

text \<open>
  What a call leaves behind: the caller's model state dict, the model, the optimizers
  and the store of the parameters.
\<close>

record world =
  w_model_state_dict :: "(string \<times> tensor) list"
  w_model :: model
  w_optims :: "optimizer list"
  w_heap :: heap

text \<open>
  \<^verbatim>\<open>_load_optim_state_dict\<close> reads \<^verbatim>\<open>state_dict["state"]\<close> and
  \<^verbatim>\<open>state_dict[PG]\<close>; on the empty dictionary nothing is read when there is no
  optimizer, and the first read raises \<^verbatim>\<open>KeyError\<close> otherwise. A read happens at
  the first trainable parameter with an FQN, or after the loops of the split.
\<close>

definition distributed_load_state_dict ::
  "collaborators \<Rightarrow> heap \<Rightarrow> model \<Rightarrow> optimizer list \<Rightarrow> (string \<times> tensor) list \<Rightarrow>
   optim_state_dict option \<Rightarrow> bool \<Rightarrow> bool \<Rightarrow> DistributedStateDictOptions option \<Rightarrow>
   error option \<times> world" where
  "distributed_load_state_dict c h mdl optims model_state_dict optim_state_dict
     model_only optim_only options =
     (case verify_options h mdl optims model_only optim_only options of
        Inl e \<Rightarrow>
          (Some e, \<lparr>w_model_state_dict = model_state_dict, w_model = mdl, w_optims = optims,
                    w_heap = h\<rparr>)
      | Inr info \<Rightarrow>
          (case verify_state_dict model_state_dict optim_state_dict info of
             Inl e \<Rightarrow>
               (Some e, \<lparr>w_model_state_dict = model_state_dict, w_model = mdl, w_optims = optims,
                         w_heap = h\<rparr>)
           | Inr u \<Rightarrow>
               (case load_model_state_dict c mdl model_state_dict info of
                  (Inl e, sd) \<Rightarrow>
                    (Some e, \<lparr>w_model_state_dict = sd, w_model = mdl, w_optims = optims,
                              w_heap = h\<rparr>)
                | (Inr mdl', sd) \<Rightarrow>
                    (case optim_state_dict of
                       None \<Rightarrow>
                         (if optims = [] then None else Some KeyError,
                          \<lparr>w_model_state_dict = sd, w_model = mdl', w_optims = optims,
                           w_heap = h\<rparr>)
                     | Some osd \<Rightarrow>
                         (case load_optim_state_dict c mdl' optims osd info h of
                            (r, optims', h') \<Rightarrow>
                              (r, \<lparr>w_model_state_dict = sd, w_model = mdl', w_optims = optims',
                                   w_heap = h'\<rparr>))))))"

section \<open>\<^verbatim>\<open>patch_model_state_dict\<close>\<close>

text \<open>
  The two entry points are built with \<^verbatim>\<open>functools.partial\<close> and called with
  keyword arguments, so what they do depends on how Python binds keywords: a keyword that
  is not a parameter of the function raises \<^verbatim>\<open>TypeError\<close> before the body runs.
\<close>

datatype argument =
    ModelArg model
  | OptimsArg "optimizer list"
  | StateDictArg "(string \<times> tensor) list"
  | OptimStateDictArg "optim_state_dict option"
  | BoolArg bool
  | OptionsArg "DistributedStateDictOptions option"

definition distributed_state_dict_signature :: "string list" where
  "distributed_state_dict_signature =
     [''model'', ''optims'', ''model_only'', ''optim_only'', ''options'']"

definition distributed_load_state_dict_signature :: "string list" where
  "distributed_load_state_dict_signature =
     [''model'', ''optims'', ''model_state_dict'', ''optim_state_dict'', ''model_only'',
      ''optim_only'', ''options'']"

text \<open>
  A call by keywords: \<open>Inl TypeError\<close> when a keyword is not in the signature or
  \<^verbatim>\<open>model\<close> is missing; otherwise the body runs on the given arguments and the
  defaults of the signature for the others.
\<close>

definition call_distributed_state_dict ::
  "collaborators \<Rightarrow> heap \<Rightarrow> (string \<times> argument) list \<Rightarrow>
   error + ((error + (string \<times> tensor) list \<times> optim_state_dict) \<times> optimizer list \<times> heap)" where
  "call_distributed_state_dict c h kwargs =
     (if list_ex (\<lambda>k. k \<notin> set distributed_state_dict_signature) (map fst kwargs)
      then Inl TypeError
      else (case map_of kwargs ''model'' of
              Some (ModelArg mdl) \<Rightarrow>
                Inr (distributed_state_dict c h mdl
                       (case map_of kwargs ''optims'' of Some (OptimsArg x) \<Rightarrow> x | _ \<Rightarrow> [])
                       (case map_of kwargs ''model_only'' of Some (BoolArg x) \<Rightarrow> x | _ \<Rightarrow> False)
                       (case map_of kwargs ''optim_only'' of Some (BoolArg x) \<Rightarrow> x | _ \<Rightarrow> False)
                       (case map_of kwargs ''options'' of Some (OptionsArg x) \<Rightarrow> x | _ \<Rightarrow> None))
            | _ \<Rightarrow> Inl TypeError))"

definition call_distributed_load_state_dict ::
  "collaborators \<Rightarrow> heap \<Rightarrow> (string \<times> argument) list \<Rightarrow> error + (error option \<times> world)" where
  "call_distributed_load_state_dict c h kwargs =
     (if list_ex (\<lambda>k. k \<notin> set distributed_load_state_dict_signature) (map fst kwargs)
      then Inl TypeError
      else (case map_of kwargs ''model'' of
              Some (ModelArg mdl) \<Rightarrow>
                Inr (distributed_load_state_dict c h mdl
                       (case map_of kwargs ''optims'' of Some (OptimsArg x) \<Rightarrow> x | _ \<Rightarrow> [])
                       (case map_of kwargs ''model_state_dict'' of
                          Some (StateDictArg x) \<Rightarrow> x | _ \<Rightarrow> [])
                       (case map_of kwargs ''optim_state_dict'' of
                          Some (OptimStateDictArg x) \<Rightarrow> x | _ \<Rightarrow> None)
                       (case map_of kwargs ''model_only'' of Some (BoolArg x) \<Rightarrow> x | _ \<Rightarrow> False)
                       (case map_of kwargs ''optim_only'' of Some (BoolArg x) \<Rightarrow> x | _ \<Rightarrow> False)
                       (case map_of kwargs ''options'' of Some (OptionsArg x) \<Rightarrow> x | _ \<Rightarrow> None))
            | _ \<Rightarrow> Inl TypeError))"

text \<open>
  \<^verbatim>\<open>state_dict_call = lambda: _state_dict_call()[0]\<close>, where
  \<^verbatim>\<open>_state_dict_call\<close> is \<^verbatim>\<open>distributed_state_dict\<close> with the keywords
  \<^verbatim>\<open>model\<close>, \<^verbatim>\<open>optims=tuple()\<close>, \<^verbatim>\<open>model_only=True\<close> and \<^verbatim>\<open>options\<close>.
\<close>

definition state_dict_call ::
  "collaborators \<Rightarrow> heap \<Rightarrow> model \<Rightarrow> DistributedStateDictOptions option \<Rightarrow>
   error + (string \<times> tensor) list" where
  "state_dict_call c h mdl options =
     (case call_distributed_state_dict c h
             [(''model'', ModelArg mdl), (''optims'', OptimsArg []),
              (''model_only'', BoolArg True), (''options'', OptionsArg options)] of
        Inl e \<Rightarrow> Inl e
      | Inr (Inl e, optims, h') \<Rightarrow> Inl e
      | Inr (Inr (model_state_dict, optim_state_dict), optims, h') \<Rightarrow> Inr model_state_dict)"

text \<open>
  \<^verbatim>\<open>load_state_dict_call = lambda state_dict: _load_state_dict_call(state_dict=state_dict)[1]\<close>,
  where \<^verbatim>\<open>_load_state_dict_call\<close> is \<^verbatim>\<open>distributed_load_state_dict\<close> with the
  keywords \<^verbatim>\<open>model\<close>, \<^verbatim>\<open>optims=tuple()\<close>, \<^verbatim>\<open>model_only=True\<close> and
  \<^verbatim>\<open>options\<close>. \<^verbatim>\<open>distributed_load_state_dict\<close> returns \<^verbatim>\<open>None\<close>, and
  \<^verbatim>\<open>None[1]\<close> raises \<^verbatim>\<open>TypeError\<close>. The second component is the world after the
  call, \<open>None\<close> when the body of \<^verbatim>\<open>distributed_load_state_dict\<close> did not run.
\<close>

definition load_state_dict_call ::
  "collaborators \<Rightarrow> heap \<Rightarrow> model \<Rightarrow> DistributedStateDictOptions option \<Rightarrow>
   (string \<times> tensor) list \<Rightarrow> (error + tensor) \<times> world option" where
  "load_state_dict_call c h mdl options state_dict =
     (case call_distributed_load_state_dict c h
             [(''model'', ModelArg mdl), (''optims'', OptimsArg []),
              (''model_only'', BoolArg True), (''options'', OptionsArg options),
              (''state_dict'', StateDictArg state_dict)] of
        Inl e \<Rightarrow> (Inl e, None)
      | Inr (Some e, w) \<Rightarrow> (Inl e, Some w)
      | Inr (None, w) \<Rightarrow> (Inl TypeError, Some w))"

text \<open>
  \<^verbatim>\<open>patch_model_state_dict\<close> stores the two entry points on the model and adds them
  to \<^verbatim>\<open>_patched_state_dict\<close>.
\<close>

definition patch_model_state_dict :: "model \<Rightarrow> model" where
  "patch_model_state_dict mdl = mdl\<lparr>patched := True\<rparr>"

section \<open>Notions used in the statements\<close>

text \<open>The truth value of \<^verbatim>\<open>_is_root\<close> of a shard wrapper.\<close>

fun fsdp_is_root :: "obj \<Rightarrow> bool" where
  "fsdp_is_root (FSDP m fp r) = r"
| "fsdp_is_root x = False"



text \<open>The FQNs that \<^verbatim>\<open>fqn_param_mapping\<close> records for a parameter object.\<close>

definition fqns_of :: "StateDictInfo \<Rightarrow> nat \<Rightarrow> string list" where
  "fqns_of info param =
     (case map_of (fqn_param_mapping info) (ParamKey param) of
        Some (FqnsVal fqns) \<Rightarrow> fqns
      | _ \<Rightarrow> [])"

text \<open>
  The FQNs recorded for the trainable parameters of an optimizer's groups, in the order
  of the groups.
\<close>

definition trainable_fqns :: "heap \<Rightarrow> StateDictInfo \<Rightarrow> optimizer \<Rightarrow> string list" where
  "trainable_fqns h info optim =
     concat (map (fqns_of info) (filter (\<lambda>p. requires_grad (h p)) (all_params optim)))"

section \<open>Example inputs\<close>

definition linear :: "nat \<Rightarrow> nat \<Rightarrow> obj" where
  "linear w b = Module [(''weight'', Tensor w), (''bias'', Tensor b)]"

text \<open>A store where every parameter is trainable, local and without gradient.\<close>

definition ex_heap :: heap where
  "ex_heap = (\<lambda>p. \<lparr>requires_grad = True, is_dtensor = False, grad = None\<rparr>)"

text \<open>The same store, with every parameter a \<^verbatim>\<open>DTensor\<close>.\<close>

definition tp_heap :: heap where
  "tp_heap = (\<lambda>p. \<lparr>requires_grad = True, is_dtensor = True, grad = None\<rparr>)"

text \<open>
  Collaborators for the examples: a step allocates a state entry for every parameter
  that has a gradient; the other primitives do nothing of interest.
\<close>

definition ex_collab :: collaborators where
  "ex_collab =
     \<lparr>optim_step = (\<lambda>optim h.
        (optim\<lparr>opt_state :=
                 map (\<lambda>p. (p, 0)) (filter (\<lambda>p. grad (h p) \<noteq> None) (all_params optim))\<rparr>, h)),
      optim_native_state_dict = (\<lambda>optim. \<lparr>state = [], param_groups = []\<rparr>),
      optim_native_load_state_dict = (\<lambda>optim osd. Inr optim),
      fsdp_optim_state_dict = (\<lambda>mdl optim osd. Inr osd),
      fsdp_optim_state_dict_to_load = (\<lambda>mdl optim osd. Inr osd),
      model_native_load_state_dict = (\<lambda>mdl sd. Inr (mdl\<lparr>native_state_dict := sd\<rparr>))\<rparr>"

definition ex_optim :: optimizer where
  "ex_optim =
     \<lparr>opt_state = [], opt_param_groups = [\<lparr>group_params = [0, 1], group_hyper = 0\<rparr>],
      steps = 0, opt_patched = False\<rparr>"

text \<open>An unwrapped linear layer.\<close>

definition plain_model :: model where
  "plain_model =
     \<lparr>root = linear 0 1,
      named_parameters = [(''weight'', 0), (''bias'', 1)],
      native_state_dict = [(''weight'', Data 0), (''bias'', Data 1)],
      patched = False\<rparr>"

text \<open>A model with one child, so that its names have a dot.\<close>

definition seq_model :: model where
  "seq_model =
     \<lparr>root = Module [(''l'', linear 0 1)],
      named_parameters = [(''l.weight'', 0), (''l.bias'', 1)],
      native_state_dict = [(''l.weight'', Data 0), (''l.bias'', Data 1)],
      patched = False\<rparr>"

text \<open>
  \<^verbatim>\<open>FSDP(Sequential(FSDP(Linear)))\<close>: the root wrapper has no flat parameter, the
  inner one flattens \<^verbatim>\<open>weight\<close> and \<^verbatim>\<open>bias\<close>; the native state dict has the
  names without the wrappers' segments.
\<close>

definition nested_fsdp_model :: model where
  "nested_fsdp_model =
     \<lparr>root = FSDP (Module [(''0'', FSDP (linear 0 1) (Some [''weight'', ''bias'']) False)])
               None True,
      named_parameters = [(''_fsdp_wrapped_module.0._fsdp_wrapped_module._flat_param'', 2)],
      native_state_dict = [(''0.weight'', Data 0), (''0.bias'', Data 1)],
      patched = False\<rparr>"

text \<open>A shard wrapper around a model with one child; \<open>r\<close> is its \<^verbatim>\<open>_is_root\<close>.\<close>

definition fsdp_model :: "bool \<Rightarrow> model" where
  "fsdp_model r =
     \<lparr>root = FSDP (Module [(''l'', linear 0 1)]) (Some [''l.weight'', ''l.bias'']) r,
      named_parameters = [(''_fsdp_wrapped_module._flat_param'', 2)],
      native_state_dict = [(''l.weight'', Data 0), (''l.bias'', Data 1)],
      patched = False\<rparr>"

text \<open>Two sibling shard wrappers under a plain root, each the root of its own group.\<close>

definition two_roots_model :: model where
  "two_roots_model =
     \<lparr>root = Module
        [(''a'', FSDP (Module [(''l'', linear 0 1)]) (Some [''l.weight'', ''l.bias'']) True),
         (''b'', FSDP (Module [(''l'', linear 2 3)]) (Some [''l.weight'', ''l.bias'']) True)],
      named_parameters =
        [(''a._fsdp_wrapped_module._flat_param'', 4), (''b._fsdp_wrapped_module._flat_param'', 5)],
      native_state_dict =
        [(''a.l.weight'', Data 0), (''a.l.bias'', Data 1),
         (''b.l.weight'', Data 2), (''b.l.bias'', Data 3)],
      patched = False\<rparr>"

text \<open>A shard wrapper whose flat parameter records no name.\<close>

definition empty_flat_model :: model where
  "empty_flat_model =
     \<lparr>root = FSDP (Module [(''l'', Module [(''buf'', Tensor 1)])]) (Some []) True,
      named_parameters = [(''_fsdp_wrapped_module._flat_param'', 0)],
      native_state_dict = [(''l.buf'', Data 1)],
      patched = False\<rparr>"



text \<open>
  A replica wrapper around a module with one parameter and one buffer: the buffer is an
  attribute of the module and an entry of the state dict, and not a named parameter.
\<close>

definition ddp_buffer_model :: model where
  "ddp_buffer_model =
     \<lparr>root = DDP (Module [(''weight'', Tensor 0), (''running_mean'', Tensor 1)]),
      named_parameters = [(''module.weight'', 0)],
      native_state_dict = [(''module.weight'', Data 0), (''module.running_mean'', Data 1)],
      patched = False\<rparr>"

text \<open>
  A model with three parameters, the third one frozen; an optimizer over the first and
  the third; and a merged optimizer state dict with an entry for each of the three and
  three groups.
\<close>

definition frozen_heap :: heap where
  "frozen_heap = (\<lambda>p. \<lparr>requires_grad = (p \<noteq> 2), is_dtensor = False, grad = None\<rparr>)"

definition three_model :: model where
  "three_model =
     \<lparr>root = Module [(''l'', Module [(''weight'', Tensor 0), (''bias'', Tensor 1),
                                     (''scale'', Tensor 2)])],
      named_parameters = [(''l.weight'', 0), (''l.bias'', 1), (''l.scale'', 2)],
      native_state_dict = [(''l.weight'', Data 0), (''l.bias'', Data 1), (''l.scale'', Data 2)],
      patched = False\<rparr>"

definition first_third_optim :: optimizer where
  "first_third_optim =
     \<lparr>opt_state = [(0, 5)], opt_param_groups = [\<lparr>group_params = [0, 2], group_hyper = 0\<rparr>],
      steps = 1, opt_patched = False\<rparr>"

definition merged_osd :: optim_state_dict where
  "merged_osd =
     \<lparr>state = [(NameKey ''l.weight'', 10), (NameKey ''l.bias'', 11), (NameKey ''l.scale'', 12)],
      param_groups =
        [\<lparr>params = [NameKey ''l.weight'', NameKey ''l.scale''], hyper = 0\<rparr>,
         \<lparr>params = [NameKey ''l.bias''], hyper = 1\<rparr>,
         \<lparr>params = [NameKey ''l.scale''], hyper = 2\<rparr>]\<rparr>"

text \<open>The policy that \<^verbatim>\<open>_verify_options\<close> derives for that model and optimizer.\<close>

definition three_info :: StateDictInfo where
  "three_info =
     \<lparr>use_dtensor = True, fsdp_state_dict_type = SHARDED_STATE_DICT, save_to_cpu = True,
      save_frozen_params = True,
      fqn_param_mapping =
        [(ParamKey 0, FqnsVal [''l.weight'']), (FqnKey ''l.weight'', ParamVal 0),
         (ParamKey 1, FqnsVal [''l.bias'']), (FqnKey ''l.bias'', ParamVal 1),
         (ParamKey 2, FqnsVal [''l.scale'']), (FqnKey ''l.scale'', ParamVal 2)],
      handle_model = True, handle_optim = True, fsdp_context = nullcontext,
      fsdp_modules = []\<rparr>"

section \<open>Facts about the example inputs\<close>

lemmas ex_defs = linear_def ex_heap_def tp_heap_def ex_collab_def plain_model_def seq_model_def
  nested_fsdp_model_def fsdp_model_def two_roots_model_def empty_flat_model_def
  ddp_buffer_model_def three_model_def
  FLAT_PARAM_def FSDP_WRAPPED_MODULE_def default_options_def get_fqns_def

section \<open>Round trip\<close>

text \<open>
  C1. The round trip starts with \<^verbatim>\<open>distributed_state_dict\<close> on the first model. For
  the shard-only model \<^verbatim>\<open>FSDP(Sequential(FSDP(Linear)))\<close> that call raises
  \<^verbatim>\<open>IndexError\<close>: resolving the native key \<^verbatim>\<open>0.weight\<close>, the loop of
  \<^verbatim>\<open>_get_fqns\<close> stands on the inner wrapper at the last name and reads
  \<^verbatim>\<open>obj_names[i + 1]\<close>. No state dict is produced, so nothing can be loaded back.
\<close>

theorem nested_fsdp_index_error:
  "fst (distributed_state_dict ex_collab ex_heap nested_fsdp_model [] False False None)
     = Inl IndexError"
  by (simp add: distributed_state_dict_def verify_options_def select_fsdp_context_def
      get_model_state_dict_def ex_defs)

section \<open>Option validation\<close>

text \<open>
  C2, as stated, fails: with \<^verbatim>\<open>model_only = optim_only = False\<close> and no optimizer,
  none of the three contradictory intents, \<^verbatim>\<open>_verify_options\<close> still raises when a
  parameter is a \<^verbatim>\<open>DTensor\<close> and \<^verbatim>\<open>use_dtensor\<close> is off.
\<close>

theorem verify_options_other_error:
  "verify_options tp_heap plain_model ([] :: optimizer list) False False
     (Some (default_options\<lparr>use_dtensor := False\<rparr>)) = Inl (RuntimeError TPWithoutDTensor)"
  by (simp add: verify_options_def ex_defs)

lemma build_fqn_param_mapping_tp:
  "\<forall>(name, p) \<in> set nps. \<exists>fqns. get_fqns m name True = Inr fqns \<Longrightarrow>
   \<exists>(name, p) \<in> set nps. is_dtensor (h p) \<Longrightarrow> \<not> use_dtensor options \<Longrightarrow>
   build_fqn_param_mapping h m options nps mp = Inl (RuntimeError TPWithoutDTensor)"
proof (induction nps arbitrary: mp)
  case Nil
  then show ?case by simp
next
  case (Cons a nps)
  obtain name p where a: "a = (name, p)" by (cases a)
  from Cons.prems(1) a obtain fqns where f: "get_fqns m name True = Inr fqns" by auto
  show ?case
  proof (cases "is_dtensor (h p)")
    case True
    with f Cons.prems(3) a show ?thesis by (simp add: Let_def)
  next
    case False
    with Cons.prems(2) a have "\<exists>(name, p) \<in> set nps. is_dtensor (h p)" by auto
    moreover from Cons.prems(1) have "\<forall>(name, p) \<in> set nps. \<exists>fqns. get_fqns m name True = Inr fqns"
      by simp
    ultimately show ?thesis
      using Cons.IH Cons.prems(3) f False a by (simp add: Let_def)
  qed
qed

text \<open>
  C2, amended. For every call of \<^verbatim>\<open>_verify_options\<close>:
  a call that states one of the three contradictory intents raises;
  an error raised while \<^verbatim>\<open>fqn_param_mapping\<close> is built, or else while the FSDP
  context is selected, is the error of the call, whatever \<^verbatim>\<open>model_only\<close>,
  \<^verbatim>\<open>optim_only\<close> and the optimizers are;
  when these two steps raise nothing, the call raises exactly for the three contradictory
  intents, each with its own error, and returns the policy for every other combination;
  a \<^verbatim>\<open>DTensor\<close> parameter with \<^verbatim>\<open>use_dtensor\<close> off (all names resolving) and
  an FSDP tree with a state dict type other than full or sharded (the mapping built) are
  rejected with their own errors, whatever the three inputs are.
\<close>

theorem verify_options_flags:
  "(let opts = (case options of None \<Rightarrow> default_options | Some x \<Rightarrow> x);
        result = verify_options h mdl optims model_only optim_only options;
        index = build_fqn_param_mapping h (root mdl) opts (named_parameters mdl) [];
        ctx = select_fsdp_context (fsdp_modules_of (root mdl)) opts
    in ((model_only \<and> optim_only) \<or> (model_only \<and> optims \<noteq> []) \<or> (optim_only \<and> optims = [])
          \<longrightarrow> (\<exists>e. result = Inl e))
     \<and> (\<forall>e. index = Inl e \<longrightarrow> result = Inl e)
     \<and> (\<forall>mp e. index = Inr mp \<and> ctx = Inl e \<longrightarrow> result = Inl e)
     \<and> (\<forall>mp c. index = Inr mp \<and> ctx = Inr c \<longrightarrow>
           (model_only \<and> optim_only \<longrightarrow> result = Inl (RuntimeError BothModelOnlyAndOptimOnly))
         \<and> (model_only \<and> \<not> optim_only \<and> optims \<noteq> [] \<longrightarrow>
              result = Inl (RuntimeError ModelOnlyWithOptims))
         \<and> (optim_only \<and> \<not> model_only \<and> optims = [] \<longrightarrow>
              result = Inl (RuntimeError OptimOnlyWithoutOptims))
         \<and> (\<not> (model_only \<and> optim_only) \<and> \<not> (model_only \<and> optims \<noteq> []) \<and>
            \<not> (optim_only \<and> optims = []) \<longrightarrow>
              (\<exists>info. result = Inr info
                 \<and> handle_model info = (model_only \<or> \<not> optim_only)
                 \<and> handle_optim info = (optim_only \<or> (\<not> model_only \<and> optims \<noteq> []))
                 \<and> fqn_param_mapping info = mp \<and> fsdp_context info = c)))
     \<and> ((\<forall>(name, p) \<in> set (named_parameters mdl). \<exists>fqns. get_fqns (root mdl) name True = Inr fqns)
          \<and> (\<exists>(name, p) \<in> set (named_parameters mdl). is_dtensor (h p)) \<and> \<not> use_dtensor opts
          \<longrightarrow> result = Inl (RuntimeError TPWithoutDTensor))
     \<and> ((\<exists>mp. index = Inr mp) \<and> fsdp_modules_of (root mdl) \<noteq> []
          \<and> fsdp_state_dict_type opts \<noteq> FULL_STATE_DICT
          \<and> fsdp_state_dict_type opts \<noteq> SHARDED_STATE_DICT
          \<longrightarrow> result = Inl (RuntimeError UnsupportedStateDictType)))"
proof -
  define opts where "opts = (case options of None \<Rightarrow> default_options | Some x \<Rightarrow> x)"
  define result where "result = verify_options h mdl optims model_only optim_only options"
  define index where "index = build_fqn_param_mapping h (root mdl) opts (named_parameters mdl) []"
  define ctx where "ctx = select_fsdp_context (fsdp_modules_of (root mdl)) opts"
  have r: "result =
     (case index of Inl e \<Rightarrow> Inl e
      | Inr mp \<Rightarrow>
          (case ctx of Inl e \<Rightarrow> Inl e
           | Inr c \<Rightarrow>
               if model_only \<and> optim_only then Inl (RuntimeError BothModelOnlyAndOptimOnly)
               else if model_only \<and> optims \<noteq> [] then Inl (RuntimeError ModelOnlyWithOptims)
               else if optim_only \<and> optims = [] then Inl (RuntimeError OptimOnlyWithoutOptims)
               else Inr \<lparr>use_dtensor = use_dtensor opts,
                         fsdp_state_dict_type = fsdp_state_dict_type opts,
                         save_to_cpu = save_to_cpu opts,
                         save_frozen_params = save_frozen_params opts,
                         fqn_param_mapping = mp,
                         handle_model = (model_only \<or> \<not> optim_only),
                         handle_optim = (optim_only \<or> (\<not> model_only \<and> optims \<noteq> [])),
                         fsdp_context = c,
                         fsdp_modules = fsdp_modules_of (root mdl)\<rparr>))"
    unfolding result_def index_def ctx_def opts_def verify_options_def Let_def ..
  have a: "(model_only \<and> optim_only) \<or> (model_only \<and> optims \<noteq> []) \<or> (optim_only \<and> optims = [])
          \<longrightarrow> (\<exists>e. result = Inl e)"
    unfolding r by (cases index; cases ctx) auto
  have b: "\<forall>e. index = Inl e \<longrightarrow> result = Inl e"
    unfolding r by simp
  have c: "\<forall>mp e. index = Inr mp \<and> ctx = Inl e \<longrightarrow> result = Inl e"
    unfolding r by simp
  have d: "\<forall>mp c. index = Inr mp \<and> ctx = Inr c \<longrightarrow>
           (model_only \<and> optim_only \<longrightarrow> result = Inl (RuntimeError BothModelOnlyAndOptimOnly))
         \<and> (model_only \<and> \<not> optim_only \<and> optims \<noteq> [] \<longrightarrow>
              result = Inl (RuntimeError ModelOnlyWithOptims))
         \<and> (optim_only \<and> \<not> model_only \<and> optims = [] \<longrightarrow>
              result = Inl (RuntimeError OptimOnlyWithoutOptims))
         \<and> (\<not> (model_only \<and> optim_only) \<and> \<not> (model_only \<and> optims \<noteq> []) \<and>
            \<not> (optim_only \<and> optims = []) \<longrightarrow>
              (\<exists>info. result = Inr info
                 \<and> handle_model info = (model_only \<or> \<not> optim_only)
                 \<and> handle_optim info = (optim_only \<or> (\<not> model_only \<and> optims \<noteq> []))
                 \<and> fqn_param_mapping info = mp \<and> fsdp_context info = c))"
    unfolding r by simp
  have e: "(\<forall>(name, p) \<in> set (named_parameters mdl). \<exists>fqns. get_fqns (root mdl) name True = Inr fqns)
          \<and> (\<exists>(name, p) \<in> set (named_parameters mdl). is_dtensor (h p)) \<and> \<not> use_dtensor opts
          \<longrightarrow> result = Inl (RuntimeError TPWithoutDTensor)"
  proof (intro impI, elim conjE)
    assume "\<forall>(name, p) \<in> set (named_parameters mdl). \<exists>fqns. get_fqns (root mdl) name True = Inr fqns"
      "\<exists>(name, p) \<in> set (named_parameters mdl). is_dtensor (h p)" "\<not> use_dtensor opts"
    then have "index = Inl (RuntimeError TPWithoutDTensor)"
      unfolding index_def by (rule build_fqn_param_mapping_tp)
    then show "result = Inl (RuntimeError TPWithoutDTensor)" unfolding r by simp
  qed
  have f: "(\<exists>mp. index = Inr mp) \<and> fsdp_modules_of (root mdl) \<noteq> []
          \<and> fsdp_state_dict_type opts \<noteq> FULL_STATE_DICT
          \<and> fsdp_state_dict_type opts \<noteq> SHARDED_STATE_DICT
          \<longrightarrow> result = Inl (RuntimeError UnsupportedStateDictType)"
    unfolding r by (auto simp: ctx_def select_fsdp_context_def)
  from a b c d e f show ?thesis
    unfolding Let_def opts_def [symmetric] result_def [symmetric] index_def [symmetric]
      ctx_def [symmetric]
    by (intro conjI)
qed

theorem verify_options_flags_witness:
  "verify_options tp_heap plain_model [ex_optim] True True
     (Some (default_options\<lparr>use_dtensor := False\<rparr>)) = Inl (RuntimeError TPWithoutDTensor)
   \<and> verify_options ex_heap (fsdp_model True) [ex_optim] True True
     (Some (default_options\<lparr>fsdp_state_dict_type := LOCAL_STATE_DICT\<rparr>))
       = Inl (RuntimeError UnsupportedStateDictType)
   \<and> verify_options ex_heap plain_model [ex_optim] True True None
       = Inl (RuntimeError BothModelOnlyAndOptimOnly)
   \<and> verify_options ex_heap plain_model [ex_optim] True False None
       = Inl (RuntimeError ModelOnlyWithOptims)
   \<and> verify_options ex_heap plain_model ([] :: optimizer list) False True None
       = Inl (RuntimeError OptimOnlyWithoutOptims)
   \<and> map_sum id (\<lambda>info. (handle_model info, handle_optim info))
         (verify_options ex_heap plain_model [ex_optim] False False None) = Inr (True, True)
   \<and> map_sum id (\<lambda>info. (handle_model info, handle_optim info))
         (verify_options ex_heap plain_model ([] :: optimizer list) False False None)
       = Inr (True, False)"
proof -
  have tp: "verify_options tp_heap plain_model [ex_optim] True True
     (Some (default_options\<lparr>use_dtensor := False\<rparr>)) = Inl (RuntimeError TPWithoutDTensor)"
    using verify_options_flags [where h = tp_heap and mdl = plain_model and optims = "[ex_optim]"
        and model_only = True and optim_only = True
        and options = "Some (default_options\<lparr>use_dtensor := False\<rparr>)"]
    by (simp add: Let_def ex_defs)
  have ty: "verify_options ex_heap (fsdp_model True) [ex_optim] True True
     (Some (default_options\<lparr>fsdp_state_dict_type := LOCAL_STATE_DICT\<rparr>))
       = Inl (RuntimeError UnsupportedStateDictType)"
    using verify_options_flags [where h = ex_heap and mdl = "fsdp_model True"
        and optims = "[ex_optim]" and model_only = True and optim_only = True
        and options = "Some (default_options\<lparr>fsdp_state_dict_type := LOCAL_STATE_DICT\<rparr>)"]
    by (simp add: Let_def ex_defs)
  have both: "verify_options ex_heap plain_model [ex_optim] True True None
       = Inl (RuntimeError BothModelOnlyAndOptimOnly)"
    using verify_options_flags [where h = ex_heap and mdl = plain_model and optims = "[ex_optim]"
        and model_only = True and optim_only = True and options = None]
    by (simp add: Let_def select_fsdp_context_def ex_defs)
  have mo: "verify_options ex_heap plain_model [ex_optim] True False None
       = Inl (RuntimeError ModelOnlyWithOptims)"
    using verify_options_flags [where h = ex_heap and mdl = plain_model and optims = "[ex_optim]"
        and model_only = True and optim_only = False and options = None]
    by (simp add: Let_def select_fsdp_context_def ex_defs)
  have oo: "verify_options ex_heap plain_model ([] :: optimizer list) False True None
       = Inl (RuntimeError OptimOnlyWithoutOptims)"
    using verify_options_flags [where h = ex_heap and mdl = plain_model
        and optims = "[] :: optimizer list"
        and model_only = False and optim_only = True and options = None]
    by (simp add: Let_def select_fsdp_context_def ex_defs)
  have ok1: "map_sum id (\<lambda>info. (handle_model info, handle_optim info))
         (verify_options ex_heap plain_model [ex_optim] False False None) = Inr (True, True)"
    using verify_options_flags [where h = ex_heap and mdl = plain_model and optims = "[ex_optim]"
        and model_only = False and optim_only = False and options = None]
    by (auto simp: Let_def select_fsdp_context_def ex_defs)
  have ok2: "map_sum id (\<lambda>info. (handle_model info, handle_optim info))
         (verify_options ex_heap plain_model ([] :: optimizer list) False False None)
       = Inr (True, False)"
    using verify_options_flags [where h = ex_heap and mdl = plain_model
        and optims = "[] :: optimizer list"
        and model_only = False and optim_only = False and options = None]
    by (auto simp: Let_def select_fsdp_context_def ex_defs)
  from tp ty both mo oo ok1 ok2 show ?thesis by (intro conjI)
qed

section \<open>The patched entry points\<close>

text \<open>
  C8. The replaced \<^verbatim>\<open>state_dict\<close> returns the model component of
  \<^verbatim>\<open>distributed_state_dict\<close> called with no optimizer and \<^verbatim>\<open>model_only=True\<close>.
  The replaced \<^verbatim>\<open>load_state_dict\<close> never loads: it passes the keyword
  \<^verbatim>\<open>state_dict\<close>, which \<^verbatim>\<open>distributed_load_state_dict\<close> does not have, so the call
  raises \<^verbatim>\<open>TypeError\<close> before the body runs, for every model, option and state dict.
\<close>

theorem patched_entry_points:
  "state_dict_call c h mdl options =
     (case fst (distributed_state_dict c h mdl [] True False options) of
        Inl e \<Rightarrow> Inl e | Inr (model_state_dict, optim_state_dict) \<Rightarrow> Inr model_state_dict)
   \<and> load_state_dict_call c h mdl options state_dict = (Inl TypeError, None)"
  by (simp add: state_dict_call_def call_distributed_state_dict_def
      distributed_state_dict_signature_def load_state_dict_call_def
      call_distributed_load_state_dict_def distributed_load_state_dict_signature_def
      split: prod.splits sum.splits)

section \<open>Verification of the state dicts\<close>

lemma verify_options_fsdp_modules:
  "verify_options h mdl optims model_only optim_only options = Inr info \<Longrightarrow>
   fsdp_modules info = fsdp_modules_of (root mdl)"
  by (auto simp: verify_options_def Let_def split: sum.splits if_splits)



lemma fsdp_modules_of_are_fsdp:
  "x \<in> set (fsdp_modules_of t) \<Longrightarrow> \<exists>m fp r. x = FSDP m fp r"
  by (induction t rule: fsdp_modules_of.induct) auto

lemma has_fsdp_root_loop_fsdp:
  "(\<And>x. x \<in> set xs \<Longrightarrow> \<exists>m fp r. x = FSDP m fp r) \<Longrightarrow>
   has_fsdp_root_loop xs = Inr (list_ex fsdp_is_root xs)"
proof (induction xs)
  case Nil
  then show ?case by simp
next
  case (Cons x xs)
  then obtain m fp r where "x = FSDP m fp r" by (meson list.set_intros(1))
  with Cons show ?case by simp
qed

lemma flat_param_key_loop_error:
  "flat_param_key_loop sd = Inl e \<Longrightarrow> \<exists>k. e = RuntimeError (FlatParamInKey k)"
  by (induction sd rule: flat_param_key_loop.induct) (auto split: if_splits)

text \<open>
  C4, as stated, fails: \<^verbatim>\<open>_verify_state_dict\<close> does not ask for exactly one root. A
  tree with two sibling shard wrappers, each the root of its own shard group, has two
  roots among the discovered instances and passes verification; extraction returns.
\<close>

theorem two_roots_accepted:
  "fst (distributed_state_dict ex_collab ex_heap two_roots_model [] False False None)
     = Inr (native_state_dict two_roots_model, \<lparr>state = [], param_groups = []\<rparr>)
   \<and> length (filter fsdp_is_root (fsdp_modules_of (root two_roots_model))) = 2"
  by (simp add: distributed_state_dict_def verify_options_def select_fsdp_context_def
      get_model_state_dict_def get_optim_state_dict_def verify_state_dict_def ex_defs)

text \<open>
  C4, amended. With the policy that \<^verbatim>\<open>_verify_options\<close> derives for a tree,
  \<^verbatim>\<open>_verify_state_dict\<close> raises the "no root" error exactly when the tree has shard
  wrapper instances and none of them is a root, whatever the state dicts are: at least
  one root is asked for, and more than one is accepted.
\<close>

theorem verify_state_dict_no_root:
  assumes "verify_options h mdl optims model_only optim_only options = Inr info"
  shows "(verify_state_dict model_state_dict optim_state_dict info = Inl (RuntimeError NoFSDPRoot))
       = (fsdp_modules_of (root mdl) \<noteq> [] \<and>
          \<not> list_ex fsdp_is_root (fsdp_modules_of (root mdl)))"
proof -
  have fm: "fsdp_modules info = fsdp_modules_of (root mdl)"
    using assms by (rule verify_options_fsdp_modules)
  have loop: "has_fsdp_root_loop (fsdp_modules_of (root mdl))
                = Inr (list_ex fsdp_is_root (fsdp_modules_of (root mdl)))"
    by (rule has_fsdp_root_loop_fsdp) (rule fsdp_modules_of_are_fsdp)
  have fl: "flat_param_key_loop model_state_dict \<noteq> Inl (RuntimeError NoFSDPRoot)"
    using flat_param_key_loop_error by fastforce
  show ?thesis
    using fl by (simp add: verify_state_dict_def loop fm)
qed

theorem verify_state_dict_no_root_witness:
  "verify_state_dict (native_state_dict (fsdp_model False))
     (Some \<lparr>state = [], param_groups = []\<rparr>)
     (case verify_options ex_heap (fsdp_model False) ([] :: optimizer list) False False None of
        Inr info \<Rightarrow> info)
   = Inl (RuntimeError NoFSDPRoot)"
proof -
  have "\<exists>info. verify_options ex_heap (fsdp_model False) ([] :: optimizer list) False False None
          = Inr info"
    by (simp add: verify_options_def select_fsdp_context_def ex_defs)
  then obtain info where
    i: "verify_options ex_heap (fsdp_model False) ([] :: optimizer list) False False None = Inr info"
    by blast
  have "verify_state_dict (native_state_dict (fsdp_model False))
          (Some \<lparr>state = [], param_groups = []\<rparr>) info = Inl (RuntimeError NoFSDPRoot)"
    using verify_state_dict_no_root [OF i, of "native_state_dict (fsdp_model False)"
        "Some \<lparr>state = [], param_groups = []\<rparr>"]
    by (simp add: ex_defs)
  then show ?thesis by (simp add: i)
qed

section \<open>Construction of the parameter index\<close>

lemma map_of_fold_update_fqn_key:
  "map_of (fold (\<lambda>fqn. AList.update (FqnKey fqn) (ParamVal p)) fqns al) (ParamKey q)
     = map_of al (ParamKey q)"
  by (induction fqns arbitrary: al) (simp_all add: update_conv')

lemma build_fqn_param_mapping_other_param:
  "build_fqn_param_mapping h m options nps mp = Inr mp' \<Longrightarrow> q \<notin> snd ` set nps \<Longrightarrow>
   map_of mp' (ParamKey q) = map_of mp (ParamKey q)"
proof (induction nps arbitrary: mp)
  case Nil
  then show ?case by simp
next
  case (Cons a nps)
  obtain name p where a: "a = (name, p)" by (cases a)
  from Cons.prems a obtain fqns where f: "get_fqns m name True = Inr fqns"
    by (auto split: sum.splits)
  let ?mp = "fold (\<lambda>fqn. AList.update (FqnKey fqn) (ParamVal p)) fqns
               (AList.update (ParamKey p) (FqnsVal fqns) mp)"
  from Cons.prems a f have r: "build_fqn_param_mapping h m options nps ?mp = Inr mp'"
    by (simp add: Let_def split: if_splits)
  from Cons.prems a have q: "q \<notin> snd ` set nps" "q \<noteq> p" by auto
  from Cons.IH [OF r q(1)] q(2) show ?case
    by (simp add: map_of_fold_update_fqn_key update_conv')
qed

lemma build_fqn_param_mapping_succeeds:
  "(\<exists>mp'. build_fqn_param_mapping h m options nps mp = Inr mp')
     = (\<forall>(name, p) \<in> set nps. (\<exists>fqns. get_fqns m name True = Inr fqns)
           \<and> (is_dtensor (h p) \<longrightarrow> use_dtensor options))"
proof (induction nps arbitrary: mp)
  case Nil
  then show ?case by simp
next
  case (Cons a nps)
  obtain name p where a: "a = (name, p)" by (cases a)
  show ?case
  proof (cases "get_fqns m name True")
    case (Inl e)
    then show ?thesis using a by simp
  next
    case (Inr fqns)
    then show ?thesis using a Cons.IH by (simp add: Let_def)
  qed
qed

lemma build_fqn_param_mapping_recorded:
  "build_fqn_param_mapping h m options nps mp = Inr mp' \<Longrightarrow> (name, p) \<in> set nps \<Longrightarrow>
   distinct (map snd nps) \<Longrightarrow> get_fqns m name True = Inr fqns \<Longrightarrow>
   map_of mp' (ParamKey p) = Some (FqnsVal fqns)"
proof (induction nps arbitrary: mp)
  case Nil
  then show ?case by simp
next
  case (Cons a nps)
  obtain name' p' where a: "a = (name', p')" by (cases a)
  from Cons.prems(1) a obtain fqns' where f: "get_fqns m name' True = Inr fqns'"
    by (auto split: sum.splits)
  let ?mp = "fold (\<lambda>fqn. AList.update (FqnKey fqn) (ParamVal p')) fqns'
               (AList.update (ParamKey p') (FqnsVal fqns') mp)"
  from Cons.prems(1) a f have r: "build_fqn_param_mapping h m options nps ?mp = Inr mp'"
    by (simp add: Let_def split: if_splits)
  show ?case
  proof (cases "(name, p) = (name', p')")
    case True
    with Cons.prems(3) a have "p \<notin> snd ` set nps" by auto
    from build_fqn_param_mapping_other_param [OF r this] True f Cons.prems(4)
    show ?thesis by (simp add: map_of_fold_update_fqn_key update_conv')
  next
    case False
    with Cons.prems(2) a have "(name, p) \<in> set nps" by auto
    moreover from Cons.prems(3) have "distinct (map snd nps)" by simp
    ultimately show ?thesis using Cons.IH [OF r] Cons.prems(4) by blast
  qed
qed

text \<open>
  C7, as stated, fails: \<^verbatim>\<open>_verify_options\<close> has no check for an empty set. For a
  shard wrapper whose flat parameter records no name, the name of the flat parameter
  resolves to the empty set, and index construction returns a mapping that records the
  parameter with the empty set.
\<close>

theorem empty_fqns_recorded:
  "get_fqns (root empty_flat_model) ''_fsdp_wrapped_module._flat_param'' True = Inr []
   \<and> map_sum id fqn_param_mapping
       (verify_options ex_heap empty_flat_model ([] :: optimizer list) False False None)
     = Inr [(ParamKey 0, FqnsVal [])]"
  by (simp add: verify_options_def select_fsdp_context_def ex_defs)

text \<open>
  C7, amended. Building \<^verbatim>\<open>fqn_param_mapping\<close> succeeds exactly when the name of
  every named parameter resolves, to any set, empty or not, and no \<^verbatim>\<open>DTensor\<close>
  parameter meets \<^verbatim>\<open>use_dtensor\<close> off. When it succeeds and the named parameters
  are distinct objects, every named parameter is recorded with exactly the set that its
  name resolves to: an empty set is recorded, not rejected.
\<close>

theorem build_fqn_param_mapping_total:
  "((\<exists>mp'. build_fqn_param_mapping h m options nps mp = Inr mp')
      = (\<forall>(name, p) \<in> set nps. (\<exists>fqns. get_fqns m name True = Inr fqns)
           \<and> (is_dtensor (h p) \<longrightarrow> use_dtensor options)))
   \<and> (\<forall>mp' name p fqns.
         build_fqn_param_mapping h m options nps mp = Inr mp' \<and> (name, p) \<in> set nps \<and>
         distinct (map snd nps) \<and> get_fqns m name True = Inr fqns
         \<longrightarrow> map_of mp' (ParamKey p) = Some (FqnsVal fqns))"
  using build_fqn_param_mapping_succeeds [of h m options nps mp]
    build_fqn_param_mapping_recorded [of h m options nps mp]
  by blast

theorem build_fqn_param_mapping_total_witness:
  "map_of (case build_fqn_param_mapping ex_heap (root empty_flat_model) default_options
                  (named_parameters empty_flat_model) [] of Inr mp' \<Rightarrow> mp')
          (ParamKey 0) = Some (FqnsVal [])"
proof -
  note t = build_fqn_param_mapping_total [of ex_heap "root empty_flat_model" default_options
      "named_parameters empty_flat_model" "[]"]
  have "\<exists>mp'. build_fqn_param_mapping ex_heap (root empty_flat_model) default_options
                  (named_parameters empty_flat_model) [] = Inr mp'"
    using t by (simp add: ex_defs)
  then obtain mp' where
    m: "build_fqn_param_mapping ex_heap (root empty_flat_model) default_options
                  (named_parameters empty_flat_model) [] = Inr mp'" by blast
  have "map_of mp' (ParamKey 0) = Some (FqnsVal [])"
    using t m by (auto simp: ex_defs)
  then show ?thesis by (simp add: m)
qed

section \<open>Extraction without optimizers\<close>





section \<open>Initialisation of the optimizer state\<close>






section \<open>Loading the model state dict\<close>

text \<open>
  C10. \<^verbatim>\<open>_load_model_state_dict\<close> visits \<^verbatim>\<open>model.named_parameters()\<close> only. For
  a replica wrapper around a module with a parameter and a buffer, the state dict that
  \<^verbatim>\<open>distributed_state_dict\<close> produces has the canonical keys \<^verbatim>\<open>weight\<close> and
  \<^verbatim>\<open>running_mean\<close>. The replica-prefix-preserving FQN of both differs from the
  canonical one. After \<^verbatim>\<open>distributed_load_state_dict\<close> the parameter's entry is under
  \<^verbatim>\<open>module.weight\<close>, and the buffer's entry is still under its canonical key.
\<close>

theorem buffer_key_not_rekeyed:
  "fst (distributed_state_dict ex_collab ex_heap ddp_buffer_model [] False False None)
     = Inr ([(''weight'', Data 0), (''running_mean'', Data 1)], \<lparr>state = [], param_groups = []\<rparr>)
   \<and> get_fqns (root ddp_buffer_model) ''module.running_mean'' True = Inr [''running_mean'']
   \<and> get_fqns (root ddp_buffer_model) ''module.running_mean'' False
       = Inr [''module.running_mean'']
   \<and> fst (distributed_load_state_dict ex_collab ex_heap ddp_buffer_model []
             [(''weight'', Data 0), (''running_mean'', Data 1)] None False False None) = None
   \<and> w_model_state_dict
         (snd (distributed_load_state_dict ex_collab ex_heap ddp_buffer_model []
                 [(''weight'', Data 0), (''running_mean'', Data 1)] None False False None))
       = [(''running_mean'', Data 1), (''module.weight'', Data 0)]"
  by (simp add: distributed_state_dict_def distributed_load_state_dict_def verify_options_def
      select_fsdp_context_def get_model_state_dict_def get_optim_state_dict_def
      verify_state_dict_def load_model_state_dict_def state_dict_fn_load_def verify_def
      dict_pop_def ex_defs)

section \<open>Splitting the merged optimizer state dict\<close>

lemma set_fold_insert: "set (fold List.insert xs ys) = set xs \<union> set ys"
  by (induction xs arbitrary: ys) auto

lemma set_mentioning:
  "set (mentioning fqn groups) = {i. i < length groups \<and> NameKey fqn \<in> set (params (groups ! i))}"
  by (auto simp: mentioning_def)

lemma map_nth_filter:
  "map (\<lambda>i. xs ! i) (filter (\<lambda>i. P (xs ! i)) [0..<length xs]) = filter P xs"
proof -
  have "filter P (map (\<lambda>i. xs ! i) [0..<length xs])
          = map (\<lambda>i. xs ! i) (filter (P \<circ> (\<lambda>i. xs ! i)) [0..<length xs])"
    by (rule filter_map)
  then show ?thesis by (simp add: map_nth comp_def)
qed

lemma split_fqns_loop_ok:
  "(\<exists>acc'. split_fqns_loop osd fqns acc = Inr acc')
     = (\<forall>f \<in> set fqns. map_of (state osd) (NameKey f) \<noteq> None)"
proof (induction fqns arbitrary: acc)
  case Nil
  then show ?case by simp
next
  case (Cons f fqns)
  obtain st ids where acc: "acc = (st, ids)" by (cases acc)
  show ?case using Cons.IH by (auto simp: acc dict_get_def split: option.splits)
qed

lemma split_fqns_loop_result:
  "split_fqns_loop osd fqns (st, ids) = Inr (st', ids') \<Longrightarrow>
   map_of st' = (\<lambda>k. if k \<in> NameKey ` set fqns then map_of (state osd) k else map_of st k)
   \<and> set ids' = set ids \<union> {i. i < length (param_groups osd) \<and>
                               (\<exists>f \<in> set fqns. NameKey f \<in> set (params (param_groups osd ! i)))}
   \<and> (distinct (map fst st) \<longrightarrow> distinct (map fst st'))"
proof (induction fqns arbitrary: st ids)
  case Nil
  then show ?case by simp
next
  case (Cons f fqns)
  from Cons.prems obtain v where v: "map_of (state osd) (NameKey f) = Some v"
    by (auto simp: dict_get_def split: option.splits)
  let ?st = "AList.update (NameKey f) v st"
  let ?ids = "fold List.insert (mentioning f (param_groups osd)) ids"
  from Cons.prems v have r: "split_fqns_loop osd fqns (?st, ?ids) = Inr (st', ids')"
    by (simp add: dict_get_def)
  note ih = Cons.IH [OF r]
  have m: "map_of st' = (\<lambda>k. if k \<in> NameKey ` set (f # fqns) then map_of (state osd) k
                              else map_of st k)"
    using ih v by (auto simp: fun_eq_iff update_conv')
  have i: "set ids' = set ids \<union> {i. i < length (param_groups osd) \<and>
             (\<exists>g \<in> set (f # fqns). NameKey g \<in> set (params (param_groups osd ! i)))}"
    using ih by (auto simp: set_fold_insert set_mentioning)
  have d: "distinct (map fst st) \<longrightarrow> distinct (map fst st')"
    using ih by (simp add: distinct_update)
  from m i d show ?case by blast
qed

lemma split_params_loop_ok:
  "(\<exists>acc'. split_params_loop h info osd ps acc = Inr acc')
     = (\<forall>p \<in> set ps. requires_grad (h p) \<longrightarrow>
          (\<exists>fqns. map_of (fqn_param_mapping info) (ParamKey p) = Some (FqnsVal fqns)
             \<and> (\<forall>f \<in> set fqns. map_of (state osd) (NameKey f) \<noteq> None)))"
proof (induction ps arbitrary: acc)
  case Nil
  then show ?case by simp
next
  case (Cons p ps)
  show ?case
  proof (cases "requires_grad (h p)")
    case False
    then show ?thesis using Cons.IH by simp
  next
    case True
    show ?thesis
    proof (cases "map_of (fqn_param_mapping info) (ParamKey p)")
      case None
      then show ?thesis using True by (simp add: dict_get_def)
    next
      case (Some val)
      show ?thesis
      proof (cases val)
        case (ParamVal q)
        then show ?thesis using True Some by (simp add: dict_get_def)
      next
        case (FqnsVal fqns)
        show ?thesis
        proof (cases "split_fqns_loop osd fqns acc")
          case (Inl e)
          then have "\<not> (\<forall>f \<in> set fqns. map_of (state osd) (NameKey f) \<noteq> None)"
            using split_fqns_loop_ok [of osd fqns acc] by simp
          then show ?thesis using True Some FqnsVal Inl by (simp add: dict_get_def)
        next
          case (Inr acc')
          then have "\<forall>f \<in> set fqns. map_of (state osd) (NameKey f) \<noteq> None"
            using split_fqns_loop_ok [of osd fqns acc] by auto
          then show ?thesis using True Some FqnsVal Inr Cons.IH [of acc']
            by (simp add: dict_get_def)
        qed
      qed
    qed
  qed
qed

lemma split_params_loop_result:
  "split_params_loop h info osd ps (st, ids) = Inr (st', ids') \<Longrightarrow>
   map_of st' =
     (\<lambda>k. if k \<in> NameKey ` set (concat (map (fqns_of info) (filter (\<lambda>p. requires_grad (h p)) ps)))
          then map_of (state osd) k else map_of st k)
   \<and> set ids' = set ids \<union> {i. i < length (param_groups osd) \<and>
         (\<exists>f \<in> set (concat (map (fqns_of info) (filter (\<lambda>p. requires_grad (h p)) ps))).
            NameKey f \<in> set (params (param_groups osd ! i)))}
   \<and> (distinct (map fst st) \<longrightarrow> distinct (map fst st'))"
proof (induction ps arbitrary: st ids)
  case Nil
  then show ?case by simp
next
  case (Cons p ps)
  show ?case
  proof (cases "requires_grad (h p)")
    case False
    then show ?thesis using Cons by simp
  next
    case True
    from Cons.prems True obtain fqns where
      f: "map_of (fqn_param_mapping info) (ParamKey p) = Some (FqnsVal fqns)"
      by (auto simp: dict_get_def split: option.splits mapping_val.splits sum.splits)
    then have fo: "fqns_of info p = fqns" by (simp add: fqns_of_def)
    from Cons.prems True f obtain st1 ids1 where
      1: "split_fqns_loop osd fqns (st, ids) = Inr (st1, ids1)" and
      2: "split_params_loop h info osd ps (st1, ids1) = Inr (st', ids')"
      by (auto simp: dict_get_def split: sum.splits)
    note a = split_fqns_loop_result [OF 1]
    note b = Cons.IH [OF 2]
    have m: "map_of st' =
     (\<lambda>k. if k \<in> NameKey ` set (concat (map (fqns_of info)
                                     (filter (\<lambda>p. requires_grad (h p)) (p # ps))))
          then map_of (state osd) k else map_of st k)"
      using a b True fo by (auto simp: fun_eq_iff)
    have i: "set ids' = set ids \<union> {i. i < length (param_groups osd) \<and>
         (\<exists>f \<in> set (concat (map (fqns_of info) (filter (\<lambda>p. requires_grad (h p)) (p # ps)))).
            NameKey f \<in> set (params (param_groups osd ! i)))}"
      using a b True fo by auto
    have d: "distinct (map fst st) \<longrightarrow> distinct (map fst st')"
      using a b by blast
    from m i d show ?thesis by blast
  qed
qed

text \<open>
  C9. \<^verbatim>\<open>_split_optim_state_dict\<close> returns exactly when every trainable parameter of
  the optimizer's groups is a key of \<^verbatim>\<open>fqn_param_mapping\<close> and each of its FQNs has
  an entry in the merged state. What it returns then holds one state entry for each FQN
  of those trainable parameters and for nothing else, each entry being the merged one,
  and exactly the merged groups that mention one of these FQNs, in the merged order. An
  FQN recorded only for frozen parameters is not pulled. That subset is what
  \<^verbatim>\<open>_load_optim_state_dict\<close> passes to the optimizer's \<^verbatim>\<open>load_state_dict\<close> when
  the tree has no shard wrapper; when the split raises, nothing is loaded.
\<close>

theorem split_optim_state_dict_trainable:
  "((\<exists>r. split_optim_state_dict h mdl optim osd info = Inr r)
      = (\<forall>p \<in> set (all_params optim). requires_grad (h p) \<longrightarrow>
           (\<exists>fqns. map_of (fqn_param_mapping info) (ParamKey p) = Some (FqnsVal fqns)
              \<and> (\<forall>f \<in> set fqns. map_of (state osd) (NameKey f) \<noteq> None))))
   \<and> (\<forall>r. split_optim_state_dict h mdl optim osd info = Inr r \<longrightarrow>
         fst ` set (state r) = NameKey ` set (trainable_fqns h info optim)
       \<and> distinct (map fst (state r))
       \<and> (\<forall>k \<in> fst ` set (state r). map_of (state r) k = map_of (state osd) k)
       \<and> param_groups r =
           filter (\<lambda>g. \<exists>f \<in> set (trainable_fqns h info optim). NameKey f \<in> set (params g))
             (param_groups osd)
       \<and> (\<forall>p \<in> set (all_params optim). \<not> requires_grad (h p) \<longrightarrow>
            (\<forall>f \<in> set (fqns_of info p). f \<notin> set (trainable_fqns h info optim) \<longrightarrow>
               NameKey f \<notin> fst ` set (state r)))
       \<and> (\<forall>c optim' h'. fsdp_modules info = [] \<and> init_optim_state c optim h = (None, optim', h')
            \<longrightarrow> load_optim_state_dict c mdl [optim] osd info h =
                 (case state_dict_fn_load (opt_patched optim')
                         (optim_native_load_state_dict c optim') r of
                    Inl e \<Rightarrow> (Some e, [optim'], h')
                  | Inr optim'' \<Rightarrow> (None, [optim''], h'))))
   \<and> (\<forall>e c rest. split_optim_state_dict h mdl optim osd info = Inl e \<longrightarrow>
         load_optim_state_dict c mdl (optim # rest) osd info h = (Some e, optim # rest, h))"
proof (intro conjI allI impI)
  show "(\<exists>r. split_optim_state_dict h mdl optim osd info = Inr r)
      = (\<forall>p \<in> set (all_params optim). requires_grad (h p) \<longrightarrow>
           (\<exists>fqns. map_of (fqn_param_mapping info) (ParamKey p) = Some (FqnsVal fqns)
              \<and> (\<forall>f \<in> set fqns. map_of (state osd) (NameKey f) \<noteq> None)))"
    using split_params_loop_ok [of h info osd "all_params optim" "([], [])"]
    by (auto simp: split_optim_state_dict_def split: sum.splits)
next
  fix e c rest
  assume "split_optim_state_dict h mdl optim osd info = Inl e"
  then show "load_optim_state_dict c mdl (optim # rest) osd info h = (Some e, optim # rest, h)"
    by simp
next
  fix r
  assume r: "split_optim_state_dict h mdl optim osd info = Inr r"
  then obtain st ids where
    l: "split_params_loop h info osd (all_params optim) ([], []) = Inr (st, ids)" and
    rs: "state r = st" and
    rg: "param_groups r = map (\<lambda>i. param_groups osd ! i)
                   (filter (\<lambda>i. i \<in> set ids) [0..<length (param_groups osd)])"
    by (auto simp: split_optim_state_dict_def split: sum.splits)
  let ?T = "trainable_fqns h info optim"
  note res = split_params_loop_result [OF l, folded trainable_fqns_def]
  have m: "map_of st = (\<lambda>k. if k \<in> NameKey ` set ?T then map_of (state osd) k else None)"
    using res by (auto simp: fun_eq_iff)
  have i: "set ids = {i. i < length (param_groups osd) \<and>
                (\<exists>f \<in> set ?T. NameKey f \<in> set (params (param_groups osd ! i)))}"
    using res by simp
  have d: "distinct (map fst st)"
    using res by simp
  from r have "\<exists>r. split_optim_state_dict h mdl optim osd info = Inr r" by blast
  then have ok: "\<forall>p \<in> set (all_params optim). requires_grad (h p) \<longrightarrow>
           (\<exists>fqns. map_of (fqn_param_mapping info) (ParamKey p) = Some (FqnsVal fqns)
              \<and> (\<forall>f \<in> set fqns. map_of (state osd) (NameKey f) \<noteq> None))"
    using split_params_loop_ok [of h info osd "all_params optim" "([], [])"]
    by (auto simp: split_optim_state_dict_def split: sum.splits)
  have present: "map_of (state osd) (NameKey f) \<noteq> None" if "f \<in> set ?T" for f
  proof -
    from that obtain p where p: "p \<in> set (all_params optim)" "requires_grad (h p)"
      "f \<in> set (fqns_of info p)"
      by (auto simp: trainable_fqns_def)
    with ok obtain fqns where
      "map_of (fqn_param_mapping info) (ParamKey p) = Some (FqnsVal fqns)"
      "\<forall>f \<in> set fqns. map_of (state osd) (NameKey f) \<noteq> None" by blast
    with p(3) show ?thesis by (simp add: fqns_of_def)
  qed
  have "dom (map_of st) = NameKey ` set ?T"
    using present unfolding m by (auto simp: dom_def split: if_splits)
  then show keys: "fst ` set (state r) = NameKey ` set ?T"
    by (simp add: rs dom_map_of_conv_image_fst)
  show "distinct (map fst (state r))" using d rs by simp
  show "\<forall>k \<in> fst ` set (state r). map_of (state r) k = map_of (state osd) k"
    unfolding keys by (simp add: rs m)
  have "param_groups r = map (\<lambda>i. param_groups osd ! i)
          (filter (\<lambda>i. (\<lambda>g. \<exists>f \<in> set ?T. NameKey f \<in> set (params g)) (param_groups osd ! i))
             [0..<length (param_groups osd)])"
    unfolding rg by (rule arg_cong [where f = "map _"], rule filter_cong) (auto simp: i)
  then show "param_groups r =
           filter (\<lambda>g. \<exists>f \<in> set ?T. NameKey f \<in> set (params g)) (param_groups osd)"
    using map_nth_filter [of "param_groups osd"
        "\<lambda>g. \<exists>f \<in> set ?T. NameKey f \<in> set (params g)"]
    by simp
  show "\<forall>p \<in> set (all_params optim). \<not> requires_grad (h p) \<longrightarrow>
            (\<forall>f \<in> set (fqns_of info p). f \<notin> set ?T \<longrightarrow> NameKey f \<notin> fst ` set (state r))"
    unfolding keys by auto
  fix c optim' h'
  assume "fsdp_modules info = [] \<and> init_optim_state c optim h = (None, optim', h')"
  then show "load_optim_state_dict c mdl [optim] osd info h =
                 (case state_dict_fn_load (opt_patched optim')
                         (optim_native_load_state_dict c optim') r of
                    Inl e \<Rightarrow> (Some e, [optim'], h')
                  | Inr optim'' \<Rightarrow> (None, [optim''], h'))"
    by (simp add: r split: sum.splits)
qed

theorem split_optim_state_dict_trainable_witness:
  "verify_options frozen_heap three_model [first_third_optim] False False None = Inr three_info
   \<and> fst ` set (state (case split_optim_state_dict frozen_heap three_model first_third_optim
                              merged_osd three_info of Inr r \<Rightarrow> r))
       = {NameKey ''l.weight''}
   \<and> map_of (state (case split_optim_state_dict frozen_heap three_model first_third_optim
                            merged_osd three_info of Inr r \<Rightarrow> r)) (NameKey ''l.weight'')
       = Some 10
   \<and> param_groups (case split_optim_state_dict frozen_heap three_model first_third_optim
                            merged_osd three_info of Inr r \<Rightarrow> r)
       = [\<lparr>params = [NameKey ''l.weight'', NameKey ''l.scale''], hyper = 0\<rparr>]"
proof -
  note t = split_optim_state_dict_trainable [of frozen_heap three_model first_third_optim
      merged_osd three_info]
  have vo: "verify_options frozen_heap three_model [first_third_optim] False False None
              = Inr three_info"
    by (simp add: verify_options_def select_fsdp_context_def three_info_def frozen_heap_def
        ex_defs)
  have tf: "trainable_fqns frozen_heap three_info first_third_optim = [''l.weight'']"
    by (simp add: trainable_fqns_def fqns_of_def three_info_def frozen_heap_def
        first_third_optim_def all_params_def)
  have "\<exists>r. split_optim_state_dict frozen_heap three_model first_third_optim merged_osd
               three_info = Inr r"
    using t by (simp add: three_info_def frozen_heap_def first_third_optim_def all_params_def
        merged_osd_def)
  then obtain r where
    r: "split_optim_state_dict frozen_heap three_model first_third_optim merged_osd three_info
          = Inr r" by blast
  from t r have p: "fst ` set (state r) = NameKey ` set [''l.weight'']"
    "\<forall>k \<in> fst ` set (state r). map_of (state r) k = map_of (state merged_osd) k"
    "param_groups r =
       filter (\<lambda>g. \<exists>f \<in> set [''l.weight'']. NameKey f \<in> set (params g))
         (param_groups merged_osd)"
    unfolding tf by blast+
  from p(1) have 1: "fst ` set (state r) = {NameKey ''l.weight''}" by simp
  from p(2) 1 have 2: "map_of (state r) (NameKey ''l.weight'') = Some 10"
    by (simp add: merged_osd_def)
  from p(3) have 3: "param_groups r
       = [\<lparr>params = [NameKey ''l.weight'', NameKey ''l.scale''], hyper = 0\<rparr>]"
    by (simp add: merged_osd_def)
  from vo 1 2 3 show ?thesis by (simp add: r)
qed

section \<open>Resolution of the flat parameter\<close>











end
